theory Spec2Isabelle
  imports Main "HOL-Library.Sublist"
begin

section \<open>Python strings and integers used by the agent\<close>

text \<open>
  Strings are lists of characters; the model covers ASCII text. \<open>str.split()\<close> and
  \<open>str.strip()\<close> without arguments cut at Python's whitespace, which in the ASCII range
  is the code points 9 to 13, 28 to 31 and 32. (Beyond ASCII Python knows further whitespace
  characters, such as U+0085 and U+00A0; they are not modelled.)
\<close>

definition py_isspace :: "char \<Rightarrow> bool" where
  "py_isspace c = (c \<in> set [CHR 0x09, CHR 0x0A, CHR 0x0B, CHR 0x0C, CHR 0x0D,
                            CHR 0x1C, CHR 0x1D, CHR 0x1E, CHR 0x1F, CHR 0x20])"

text \<open>\<open>s.split()\<close>: the maximal runs of non-whitespace characters, in order.\<close>

function py_split :: "string \<Rightarrow> string list" where
  "py_split [] = []"
| "py_split (c # cs) =
     (if py_isspace c then py_split cs
      else (c # takeWhile (\<lambda>x. \<not> py_isspace x) cs)
             # py_split (dropWhile (\<lambda>x. \<not> py_isspace x) cs))"
  by pat_completeness auto
termination
  by (relation "measure length") (auto simp: length_dropWhile_le less_Suc_eq_le)

text \<open>\<open>s.strip()\<close>: leading and trailing whitespace removed.\<close>

definition py_strip :: "string \<Rightarrow> string" where
  "py_strip s = rev (dropWhile py_isspace (rev (dropWhile py_isspace s)))"

text \<open>\<open>s.startswith(p)\<close>.\<close>

definition startswith :: "string \<Rightarrow> string \<Rightarrow> bool" where
  "startswith s p = prefix p s"

text \<open>\<open>xs[:k]\<close> for a Python integer \<open>k\<close>: a negative \<open>k\<close> counts from the end.\<close>

definition py_slice_to :: "'a list \<Rightarrow> int \<Rightarrow> 'a list" where
  "py_slice_to xs k =
     (if 0 \<le> k then take (nat k) xs else take (length xs - nat (- k)) xs)"

text \<open>\<open>str(n)\<close> for an integer, as the f-strings of the agent format it.\<close>

definition digit_char :: "nat \<Rightarrow> char" where
  "digit_char d = ''0123456789'' ! d"

fun str_nat :: "nat \<Rightarrow> string" where
  "str_nat n = (if n < 10 then [digit_char n] else str_nat (n div 10) @ [digit_char (n mod 10)])"

declare str_nat.simps [simp del]

definition str_int :: "int \<Rightarrow> string" where
  "str_int i = (if i < 0 then CHR ''-'' # str_nat (nat (- i)) else str_nat (nat i))"

text \<open>
  \<open>int(s)\<close> on a string: surrounding whitespace is ignored, then an optional sign, then
  decimal digits, where single underscores may stand between two digits. Anything else is a
  \<open>ValueError\<close>, here \<open>None\<close>; so is a literal of more than 4300 digits (the default of
  \<open>sys.int_max_str_digits\<close>). The whitespace that \<open>int\<close> ignores is narrower than that of
  \<open>split\<close>: in the ASCII range the code points 9 to 13 and 32, not 28 to 31.
\<close>

definition py_isdigit :: "char \<Rightarrow> bool" where
  "py_isdigit c = (c \<in> set ''0123456789'')"

definition digit_val :: "char \<Rightarrow> nat" where
  "digit_val c = of_char c - 48"

fun digits_from :: "nat \<Rightarrow> string \<Rightarrow> nat option" where
  "digits_from acc [] = Some acc"
| "digits_from acc [c] = (if py_isdigit c then Some (10 * acc + digit_val c) else None)"
| "digits_from acc (c # d # ds) =
     (if py_isdigit c then digits_from (10 * acc + digit_val c) (d # ds)
      else if c = CHR ''_'' \<and> py_isdigit d then digits_from (10 * acc + digit_val d) ds
      else None)"

definition int_max_str_digits :: nat where
  "int_max_str_digits = 4300"

definition py_unsigned :: "string \<Rightarrow> nat option" where
  "py_unsigned body =
     (case body of
        [] \<Rightarrow> None
      | c # cs \<Rightarrow>
          if \<not> py_isdigit c then None
          else if length (filter py_isdigit body) > int_max_str_digits then None
          else digits_from (digit_val c) cs)"

definition int_isspace :: "char \<Rightarrow> bool" where
  "int_isspace c = (c \<in> set [CHR 0x09, CHR 0x0A, CHR 0x0B, CHR 0x0C, CHR 0x0D, CHR 0x20])"

definition py_int :: "string \<Rightarrow> int option" where
  "py_int s =
     (case rev (dropWhile int_isspace (rev (dropWhile int_isspace s))) of
        [] \<Rightarrow> None
      | c # cs \<Rightarrow>
          if c = CHR ''-'' then map_option (\<lambda>n. - int n) (py_unsigned cs)
          else if c = CHR ''+'' then map_option int (py_unsigned cs)
          else map_option int (py_unsigned (c # cs)))"

section \<open>Data model\<close>

text \<open>\<open>SnapshotInfo\<close>: one record of the snapshot ledger.\<close>

record SnapshotInfo =
  name :: string
  message_count :: int
  step_number :: int

text \<open>The three values of \<open>InteractiveAgentConfig.mode\<close>.\<close>

datatype mode = Human | Confirm | Yolo

definition mode_name :: "mode \<Rightarrow> string" where
  "mode_name m = (case m of Human \<Rightarrow> ''human'' | Confirm \<Rightarrow> ''confirm'' | Yolo \<Rightarrow> ''yolo'')"

text \<open>\<open>_MODE_COMMANDS_MAPPING\<close>.\<close>

definition MODE_COMMANDS_MAPPING :: "string \<rightharpoonup> mode" where
  "MODE_COMMANDS_MAPPING = map_of [(''/u'', Human), (''/c'', Confirm), (''/y'', Yolo)]"

text \<open>
  Exceptions. \<open>ValueError\<close> and \<open>IndexError\<close> stand for the class and its subclasses,
  \<open>MarkupError\<close> for the error of the console library on invalid markup (a subclass of
  \<open>Exception\<close>), \<open>OtherException\<close> for every other subclass of \<open>Exception\<close> (a failed
  subprocess, a runtime error, an invalid regular expression), \<open>KeyboardInterrupt\<close> and
  \<open>OtherBaseException\<close> for the exceptions outside \<open>Exception\<close>. Each carries its
  message where it has one.
\<close>

datatype exn =
    ValueError string
  | IndexError string
  | EOFError
  | NonTerminatingException string
  | MarkupError string
  | OtherException string
  | KeyboardInterrupt
  | OtherBaseException string

text \<open>What \<open>except Exception\<close> catches.\<close>

definition is_Exception :: "exn \<Rightarrow> bool" where
  "is_Exception e = (case e of KeyboardInterrupt \<Rightarrow> False | OtherBaseException _ \<Rightarrow> False | _ \<Rightarrow> True)"

text \<open>What \<open>except (ValueError, IndexError)\<close> catches.\<close>

definition is_ValueError_or_IndexError :: "exn \<Rightarrow> bool" where
  "is_ValueError_or_IndexError e = (case e of ValueError _ \<Rightarrow> True | IndexError _ \<Rightarrow> True | _ \<Rightarrow> False)"

text \<open>\<open>str(e)\<close>, as the warning of a failed snapshot formats it.\<close>

definition exn_str :: "exn \<Rightarrow> string" where
  "exn_str e =
     (case e of ValueError m \<Rightarrow> m | IndexError m \<Rightarrow> m | EOFError \<Rightarrow> [] | NonTerminatingException m \<Rightarrow> m
      | MarkupError m \<Rightarrow> m | OtherException m \<Rightarrow> m | KeyboardInterrupt \<Rightarrow> [] | OtherBaseException m \<Rightarrow> m)"

text \<open>
  The environment collaborator, as the agent sees it: whether it has the optional methods
  (\<open>hasattr\<close>), its configured working directory, and the two methods themselves. A method
  acts on the environment's own state \<open>'e\<close> and either returns (\<open>None\<close>) or raises.
\<close>

record 'e environment =
  has_create_snapshot :: bool
  cwd :: string
  env_create_snapshot :: "string \<Rightarrow> 'e \<Rightarrow> exn option \<times> 'e"
  has_rollback_snapshot :: bool
  env_rollback_snapshot :: "string \<Rightarrow> 'e \<Rightarrow> exn option \<times> 'e"

text \<open>One entry of the transcript \<open>self.messages\<close>.\<close>

record message =
  role :: string
  content :: string

text \<open>What \<open>console.print\<close> is given: marked-up text, or the horizontal rule of \<open>step\<close>.\<close>

datatype printed = Text string | Rule

text \<open>
  The agent: the configuration fields read here, the transcript, the snapshot ledger, the step
  counter, the state of the environment, and everything printed to the console so far.
  The counter \<open>self.step_number\<close> is the field \<open>step_number\<close> of the agent; the field of
  the same name of a ledger record is written \<open>SnapshotInfo.step_number\<close>.
\<close>

record 'e agent =
  mode :: mode
  whitelist_actions :: "string list"
  messages :: "message list"
  snapshots :: "SnapshotInfo list"
  step_number :: int
  env_state :: 'e
  console :: "printed list"

text \<open>A fresh session, as \<open>__init__\<close> leaves it: empty transcript, empty ledger, counter 0.\<close>

definition init_agent :: "mode \<Rightarrow> string list \<Rightarrow> 'e \<Rightarrow> 'e agent" where
  "init_agent m wl e =
     \<lparr>mode = m, whitelist_actions = wl, messages = [], snapshots = [], step_number = 0,
      env_state = e, console = []\<rparr>"

definition console_print :: "string \<Rightarrow> 'e agent \<Rightarrow> 'e agent" where
  "console_print s st = st\<lparr>console := console st @ [Text s]\<rparr>"

definition newline :: string where
  "newline = [CHR 0x0A]"

section \<open>Confirmation policy\<close>

text \<open>
  \<open>any(re.match(r, action) for r in whitelist)\<close>. The regular-expression engine is Python's
  library, taken as the parameter \<open>re_match\<close>: \<open>re_match r a\<close> is \<open>Inr True\<close> when
  \<open>re.match(r, a)\<close> finds a match, \<open>Inr False\<close> when it returns \<open>None\<close>, and \<open>Inl e\<close>
  when it raises. \<open>any\<close> stops at the first match.
\<close>

fun any_match :: "(string \<Rightarrow> string \<Rightarrow> exn + bool) \<Rightarrow> string list \<Rightarrow> string \<Rightarrow> exn + bool" where
  "any_match re_match [] action = Inr False"
| "any_match re_match (r # rs) action =
     (case re_match r action of
        Inl e \<Rightarrow> Inl e
      | Inr True \<Rightarrow> Inr True
      | Inr False \<Rightarrow> any_match re_match rs action)"

definition should_ask_confirmation ::
  "(string \<Rightarrow> string \<Rightarrow> exn + bool) \<Rightarrow> 'e agent \<Rightarrow> string \<Rightarrow> exn + bool" where
  "should_ask_confirmation re_match st action =
     (if mode st = Confirm then
        (case any_match re_match (whitelist_actions st) action of
           Inl e \<Rightarrow> Inl e
         | Inr b \<Rightarrow> Inr (\<not> b))
      else Inr False)"

section \<open>Snapshots\<close>

text \<open>
  \<open>console.print\<close> renders its text as markup and raises \<open>MarkupError\<close> when a closing
  tag has no opening tag to match. The texts the agent prints are fixed markup with integers,
  snapshot names and mode names filled in, which always render, with one exception: the
  warning of a failed snapshot contains \<open>str(e)\<close>, the message of the environment's
  exception, which can be any text. The renderer is the console library's, taken as the
  parameter \<open>markup_error\<close>: \<open>markup_error t\<close> is the exception that \<open>console.print(t)\<close>
  raises, or \<open>None\<close> when it prints.
\<close>

text \<open>
  \<open>_create_snapshot\<close>. The result is the exception that leaves the method, if any, and the
  agent afterwards. An exception of the environment that \<open>except Exception\<close> catches becomes a
  warning on the console; when printing the warning raises, that exception leaves the method.
\<close>

definition create_snapshot ::
  "(string \<Rightarrow> exn option) \<Rightarrow> 'e environment \<Rightarrow> 'e agent \<Rightarrow> exn option \<times> 'e agent" where
  "create_snapshot markup_error E st =
     (if has_create_snapshot E \<and> cwd E \<noteq> [] then
        (let snapshot_name = ''step-'' @ str_int (step_number st) in
         case env_create_snapshot E snapshot_name (env_state st) of
           (None, e') \<Rightarrow>
             (None, st\<lparr>env_state := e',
                       snapshots := snapshots st @
                         [\<lparr>name = snapshot_name, message_count = int (length (messages st)),
                           SnapshotInfo.step_number = step_number st\<rparr>],
                       step_number := step_number st + 1\<rparr>)
         | (Some e, e') \<Rightarrow>
             if is_Exception e then
               (let warning = ''[yellow]Warning: Failed to create snapshot: '' @ exn_str e @ ''[/yellow]'' in
                case markup_error warning of
                  None \<Rightarrow> (None, console_print warning (st\<lparr>env_state := e'\<rparr>))
                | Some err \<Rightarrow> (Some err, st\<lparr>env_state := e'\<rparr>))
             else (Some e, st\<lparr>env_state := e'\<rparr>))
      else (None, st))"

section \<open>The prompt and the rollback handler\<close>

definition help_text :: "mode \<Rightarrow> string" where
  "help_text m =
     ''Current mode: [bold green]'' @ mode_name m @ ''[/bold green]'' @ newline @
     ''[bold green]/y[/bold green] to switch to [bold yellow]yolo[/bold yellow] mode (execute LM commands without confirmation)'' @ newline @
     ''[bold green]/c[/bold green] to switch to [bold yellow]confirmation[/bold yellow] mode (ask for confirmation before executing LM commands)'' @ newline @
     ''[bold green]/u[/bold green] to switch to [bold yellow]human[/bold yellow] mode (execute commands issued by the user)'' @ newline @
     ''[bold green]/r[/bold green] to list available snapshots'' @ newline @
     ''[bold green]/r N[/bold green] to rollback to step N'' @ newline"

definition reprompt :: string where
  "reprompt = ''[bold yellow]>[/bold yellow] ''"

definition snapshot_line :: "SnapshotInfo \<Rightarrow> string" where
  "snapshot_line s =
     ''  Step '' @ str_int (SnapshotInfo.step_number s) @ '': '' @ name s @ '' ('' @ str_int (message_count s) @ '' messages)''"

text \<open>The listing of \<open>/r\<close> without an argument.\<close>

definition print_snapshots :: "'e agent \<Rightarrow> 'e agent" where
  "print_snapshots st =
     (if snapshots st = [] then console_print ''[yellow]No snapshots available[/yellow]'' st
      else st\<lparr>console := console st @ Text ''[bold green]Available snapshots:[/bold green]''
                                 # map (\<lambda>s. Text (snapshot_line s)) (snapshots st)\<rparr>)"

definition invalid_rollback_text :: string where
  "invalid_rollback_text =
     ''[red]Invalid rollback command. Use /r to list snapshots or /r N to rollback to step N[/red]''"

text \<open>
  \<open>_prompt_and_handle_special\<close> and \<open>_handle_rollback\<close>, which call each other. The last
  argument is what the user will type, one line per call of \<open>prompt_session.prompt\<close>; when
  no line is left the prompt raises \<open>EOFError\<close>, as it does at the end of the input. A
  result is the returned line or the exception raised, the agent afterwards, and the lines
  not yet read.
\<close>

function prompt_and_handle_special ::
    "'e environment \<Rightarrow> string \<Rightarrow> 'e agent \<Rightarrow> string list \<Rightarrow> (exn + string) \<times> 'e agent \<times> string list"
  and handle_rollback ::
    "'e environment \<Rightarrow> string \<Rightarrow> 'e agent \<Rightarrow> string list \<Rightarrow> (exn + string) \<times> 'e agent \<times> string list"
where
  "prompt_and_handle_special E prompt st [] = (Inl EOFError, console_print prompt st, [])"
| "prompt_and_handle_special E prompt st (user_input # rest) =
     (let st1 = console_print prompt st in
      if user_input = ''/h'' then
        prompt_and_handle_special E prompt (console_print (help_text (mode st1)) st1) rest
      else if startswith user_input ''/r'' then handle_rollback E user_input st1 rest
      else
        (case MODE_COMMANDS_MAPPING user_input of
           Some m \<Rightarrow>
             if mode st1 = m then
               prompt_and_handle_special E
                 (''[bold red]Already in '' @ mode_name (mode st1) @ '' mode.[/bold red]'' @ newline @ prompt)
                 st1 rest
             else
               (Inr user_input,
                console_print (''Switched to [bold green]'' @ mode_name m @ ''[/bold green] mode.'')
                  (st1\<lparr>mode := m\<rparr>),
                rest)
         | None \<Rightarrow> (Inr user_input, st1, rest)))"
| "handle_rollback E user_input st rest =
     (let parts = py_split user_input in
      if length parts = 1 then prompt_and_handle_special E reprompt (print_snapshots st) rest
      else
        (case parts of
           _ # arg # _ \<Rightarrow>
             (case py_int arg of
                None \<Rightarrow> prompt_and_handle_special E reprompt (console_print invalid_rollback_text st) rest
              | Some target_step \<Rightarrow>
                  (case find (\<lambda>s. SnapshotInfo.step_number s = target_step) (snapshots st) of
                     None \<Rightarrow>
                       prompt_and_handle_special E reprompt
                         (console_print (''[red]Snapshot for step '' @ str_int target_step @ '' not found[/red]'') st)
                         rest
                   | Some snapshot_info \<Rightarrow>
                       if has_rollback_snapshot E then
                         (case env_rollback_snapshot E (name snapshot_info) (env_state st) of
                            (None, e') \<Rightarrow>
                              prompt_and_handle_special E reprompt
                                (console_print (''[bold green]Rolled back to step '' @ str_int target_step @ ''[/bold green]'')
                                   (st\<lparr>env_state := e',
                                       messages := py_slice_to (messages st) (message_count snapshot_info),
                                       snapshots := filter (\<lambda>s. SnapshotInfo.step_number s \<le> target_step) (snapshots st),
                                       step_number := target_step + 1\<rparr>))
                                rest
                          | (Some e, e') \<Rightarrow>
                              if is_ValueError_or_IndexError e then
                                prompt_and_handle_special E reprompt
                                  (console_print invalid_rollback_text (st\<lparr>env_state := e'\<rparr>)) rest
                              else (Inl e, st\<lparr>env_state := e'\<rparr>, rest))
                       else
                         prompt_and_handle_special E reprompt
                           (console_print ''[red]Environment does not support rollback[/red]'' st) rest))
         | _ \<Rightarrow> prompt_and_handle_special E reprompt (console_print invalid_rollback_text st) rest))"
  by pat_completeness auto
termination
  by (relation "measure (\<lambda>x. case x of
                    Inl (E, p, st, inp) \<Rightarrow> 2 * length inp
                  | Inr (E, u, st, inp) \<Rightarrow> 2 * length inp + 1)") auto

declare handle_rollback.simps [simp del]

section \<open>Hooks of the agent loop\<close>

text \<open>
  \<open>ask_confirmation\<close>: returns when the user confirms, raises \<open>NonTerminatingException\<close>
  otherwise.
\<close>

definition confirm_prompt :: string where
  "confirm_prompt =
     ''[bold yellow]Execute?[/bold yellow] [green][bold]Enter[/bold] to confirm[/green], '' @
     ''or [green]Type a comment/command[/green] (/h for available commands)'' @ newline @
     ''[bold yellow]>[/bold yellow] ''"

definition ask_confirmation ::
  "'e environment \<Rightarrow> 'e agent \<Rightarrow> string list \<Rightarrow> (exn + unit) \<times> 'e agent \<times> string list" where
  "ask_confirmation E st inp =
     (case prompt_and_handle_special E confirm_prompt st inp of
        (Inl e, st', rest) \<Rightarrow> (Inl e, st', rest)
      | (Inr line, st', rest) \<Rightarrow>
          (let user_input = py_strip line in
           if user_input = [] \<or> user_input = ''/y'' then (Inr (), st', rest)
           else if user_input = ''/u'' then
             (Inl (NonTerminatingException ''Command not executed. Switching to human mode''), st', rest)
           else
             (Inl (NonTerminatingException
                     (''Command not executed. The user rejected your command with the following message: '' @ user_input)),
              st', rest)))"

text \<open>
  \<open>execute_action\<close>. The executor of the base agent, \<open>super().execute_action\<close>, is the
  parameter \<open>super_execute_action\<close>; \<open>action\<close> is the command text \<open>action["action"]\<close>;
  \<open>markup_error\<close> is the renderer that \<open>_create_snapshot\<close> prints its warning with.
\<close>

definition execute_action ::
  "(string \<Rightarrow> string \<Rightarrow> exn + bool) \<Rightarrow> (string \<Rightarrow> exn option) \<Rightarrow> 'e environment \<Rightarrow>
   (string \<Rightarrow> 'e agent \<Rightarrow> string list \<Rightarrow> (exn + 'o) \<times> 'e agent \<times> string list) \<Rightarrow>
   string \<Rightarrow> 'e agent \<Rightarrow> string list \<Rightarrow> (exn + 'o) \<times> 'e agent \<times> string list" where
  "execute_action re_match markup_error E super_execute_action action st inp =
     (case should_ask_confirmation re_match st action of
        Inl e \<Rightarrow> (Inl e, st, inp)
      | Inr ask \<Rightarrow>
          (case (if ask then ask_confirmation E st inp else (Inr (), st, inp)) of
             (Inl e, st1, rest) \<Rightarrow> (Inl e, st1, rest)
           | (Inr _, st1, rest) \<Rightarrow>
               (case create_snapshot markup_error E st1 of
                  (Some e, st2) \<Rightarrow> (Inl e, st2, rest)
                | (None, st2) \<Rightarrow> super_execute_action action st2 rest)))"

text \<open>
  \<open>step\<close>. The step of the base agent, \<open>super().step\<close>, is the parameter \<open>super_step\<close>.
\<close>

definition interrupted_prompt :: string where
  "interrupted_prompt =
     newline @ newline @ ''[bold yellow]Interrupted.[/bold yellow] '' @
     ''[green]Type a comment/command[/green] (/h for available commands)'' @
     newline @ ''[bold yellow]>[/bold yellow] ''"

definition step ::
  "'e environment \<Rightarrow> ('e agent \<Rightarrow> string list \<Rightarrow> (exn + 'o) \<times> 'e agent \<times> string list) \<Rightarrow>
   'e agent \<Rightarrow> string list \<Rightarrow> (exn + 'o) \<times> 'e agent \<times> string list" where
  "step E super_step st inp =
     (case super_step (st\<lparr>console := console st @ [Rule]\<rparr>) inp of
        (Inl KeyboardInterrupt, st1, rest) \<Rightarrow>
          (case prompt_and_handle_special E interrupted_prompt st1 rest of
             (Inl e, st2, rest2) \<Rightarrow> (Inl e, st2, rest2)
           | (Inr line, st2, rest2) \<Rightarrow>
               (let interruption_message = py_strip line;
                    interruption_message =
                      (if interruption_message = [] \<or> interruption_message \<in> dom MODE_COMMANDS_MAPPING
                       then ''Temporary interruption caught.'' else interruption_message)
                in (Inl (NonTerminatingException (''Interrupted by user: '' @ interruption_message)), st2, rest2)))
      | r \<Rightarrow> r)"

section \<open>Runs of the agent\<close>

text \<open>
  A snapshot call succeeds when the environment has the method, a working directory is
  configured, and the call of the environment returns.
\<close>

definition snapshot_succeeds :: "'e environment \<Rightarrow> 'e agent \<Rightarrow> bool" where
  "snapshot_succeeds E st =
     (has_create_snapshot E \<and> cwd E \<noteq> [] \<and>
      fst (env_create_snapshot E (''step-'' @ str_int (step_number st)) (env_state st)) = None)"

text \<open>
  A sequence of \<open>_create_snapshot\<close> calls. Between two calls the base agent appends to the
  transcript and runs commands in the environment; each element of the list gives the
  transcript and the state of the environment at the moment of one call.
\<close>

fun snapshot_calls ::
  "(string \<Rightarrow> exn option) \<Rightarrow> 'e environment \<Rightarrow> 'e agent \<Rightarrow> (message list \<times> 'e) list \<Rightarrow> 'e agent" where
  "snapshot_calls markup_error E st [] = st"
| "snapshot_calls markup_error E st ((ms, e) # calls) =
     snapshot_calls markup_error E
       (snd (create_snapshot markup_error E (st\<lparr>messages := ms, env_state := e\<rparr>))) calls"

fun all_succeed ::
  "(string \<Rightarrow> exn option) \<Rightarrow> 'e environment \<Rightarrow> 'e agent \<Rightarrow> (message list \<times> 'e) list \<Rightarrow> bool" where
  "all_succeed markup_error E st [] = True"
| "all_succeed markup_error E st ((ms, e) # calls) =
     (snapshot_succeeds E (st\<lparr>messages := ms, env_state := e\<rparr>) \<and>
      all_succeed markup_error E
        (snd (create_snapshot markup_error E (st\<lparr>messages := ms, env_state := e\<rparr>))) calls)"

text \<open>
  What happens to an agent in a session, as far as the ledger is concerned: a snapshot
  attempt, a prompt at which the user types some lines (among them rollback requests), and
  between them the base agent changing the transcript or the environment.
\<close>

datatype 'e event =
    SnapshotAttempt
  | Prompted string "string list"
  | TranscriptBecomes "message list"
  | EnvironmentBecomes 'e

fun apply_event ::
  "(string \<Rightarrow> exn option) \<Rightarrow> 'e environment \<Rightarrow> 'e agent \<Rightarrow> 'e event \<Rightarrow> 'e agent" where
  "apply_event markup_error E st SnapshotAttempt = snd (create_snapshot markup_error E st)"
| "apply_event markup_error E st (Prompted p typed) = fst (snd (prompt_and_handle_special E p st typed))"
| "apply_event markup_error E st (TranscriptBecomes ms) = st\<lparr>messages := ms\<rparr>"
| "apply_event markup_error E st (EnvironmentBecomes e) = st\<lparr>env_state := e\<rparr>"

definition run_events ::
  "(string \<Rightarrow> exn option) \<Rightarrow> 'e environment \<Rightarrow> 'e agent \<Rightarrow> 'e event list \<Rightarrow> 'e agent" where
  "run_events markup_error E st evs = foldl (apply_event markup_error E) st evs"

text \<open>The counter is the length of the ledger, and every record sits at its step number.\<close>

definition ledger_consistent :: "'e agent \<Rightarrow> bool" where
  "ledger_consistent st =
     (step_number st = int (length (snapshots st)) \<and>
      (\<forall>i < length (snapshots st).
          SnapshotInfo.step_number (snapshots st ! i) = int i \<and>
          name (snapshots st ! i) = ''step-'' @ str_int (int i)))"

section \<open>Concrete environments and sessions\<close>

text \<open>
  \<open>re.match\<close> on patterns that consist of ordinary characters only: the pattern matches
  when the command starts with it.
\<close>

definition literal_re_match :: "string \<Rightarrow> string \<Rightarrow> exn + bool" where
  "literal_re_match r a = Inr (prefix r a)"

text \<open>
  The console library's renderer on texts without backslashes whose tags are plain style
  names. A tag is \<open>[\<close>, a lower-case letter or one of \<open>#\<close>, \<open>/\<close>, \<open>@\<close>, then anything
  but brackets, then \<open>]\<close>. An opening tag is pushed; a closing tag \<open>[/name]\<close> removes the
  topmost opening tag of that name and \<open>[/]\<close> the topmost one; when there is none the
  renderer raises, naming the tag and its position in the text.
\<close>

definition tag_start :: "char \<Rightarrow> bool" where
  "tag_start c = (c \<in> set ''abcdefghijklmnopqrstuvwxyz#/@'')"

definition tag_at :: "string \<Rightarrow> (string \<times> string) option" where
  "tag_at cs =
     (case cs of
        [] \<Rightarrow> None
      | c # _ \<Rightarrow>
          if \<not> tag_start c then None
          else
            (case dropWhile (\<lambda>x. x \<noteq> CHR '']'' \<and> x \<noteq> CHR ''['') cs of
               [] \<Rightarrow> None
             | d # rest \<Rightarrow>
                 if d = CHR '']'' then Some (takeWhile (\<lambda>x. x \<noteq> CHR '']'' \<and> x \<noteq> CHR ''['') cs, rest)
                 else None))"

definition apostrophe :: string where
  "apostrophe = [CHR 0x27]"

definition no_open_tag :: "string \<Rightarrow> nat \<Rightarrow> exn" where
  "no_open_tag tag pos =
     MarkupError (''closing tag '' @ apostrophe @ ''['' @ tag @ '']'' @ apostrophe @ '' at position '' @
                  str_nat pos @ '' doesn'' @ apostrophe @ ''t match any open tag'')"

definition nothing_to_close :: "nat \<Rightarrow> exn" where
  "nothing_to_close pos =
     MarkupError (''closing tag '' @ apostrophe @ ''[/]'' @ apostrophe @ '' at position '' @
                  str_nat pos @ '' has nothing to close'')"

function markup_scan :: "nat \<Rightarrow> string list \<Rightarrow> string \<Rightarrow> exn option" where
  "markup_scan pos stack [] = None"
| "markup_scan pos stack (c # cs) =
     (if c = CHR ''['' then
        (case tag_at cs of
           None \<Rightarrow> markup_scan (pos + 1) stack cs
         | Some (tag, rest) \<Rightarrow>
             (case tag of
                [] \<Rightarrow> markup_scan (pos + 1) stack cs
              | t # nm \<Rightarrow>
                  if t = CHR ''/'' then
                    (if py_strip nm = [] then
                       (case stack of
                          [] \<Rightarrow> Some (nothing_to_close pos)
                        | _ # below \<Rightarrow> markup_scan (pos + length tag + 2) below rest)
                     else if py_strip nm \<in> set stack then
                       markup_scan (pos + length tag + 2) (remove1 (py_strip nm) stack) rest
                     else Some (no_open_tag tag pos))
                  else markup_scan (pos + length tag + 2) (py_strip tag # stack) rest))
      else markup_scan (pos + 1) stack cs)"
  by pat_completeness auto
termination
proof -
  have shorter: "length rest < length cs" if "tag_at cs = Some (tag, rest)" for cs tag rest
  proof -
    from that obtain d where "dropWhile (\<lambda>x. x \<noteq> CHR '']'' \<and> x \<noteq> CHR ''['') cs = d # rest"
      by (auto simp: tag_at_def split: list.splits if_splits)
    then have "length (d # rest) \<le> length cs"
      using length_dropWhile_le [of "\<lambda>x. x \<noteq> CHR '']'' \<and> x \<noteq> CHR ''[''" cs] by simp
    then show ?thesis by simp
  qed
  show ?thesis
    by (relation "measure (\<lambda>(pos, stack, text). length text)") (auto dest: shorter)
qed

definition plain_markup_error :: "string \<Rightarrow> exn option" where
  "plain_markup_error text = markup_scan 0 [] text"

text \<open>An environment whose state is the log of the calls it received; every call returns.\<close>

definition logging_env :: "string list environment" where
  "logging_env =
     \<lparr>has_create_snapshot = True, cwd = ''/work'',
      env_create_snapshot = (\<lambda>n log. (None, log @ [''create_snapshot '' @ n])),
      has_rollback_snapshot = True,
      env_rollback_snapshot = (\<lambda>n log. (None, log @ [''rollback_snapshot '' @ n]))\<rparr>"

text \<open>The same environment with both calls failing.\<close>

definition failing_env :: "string list environment" where
  "failing_env =
     \<lparr>has_create_snapshot = True, cwd = ''/work'',
      env_create_snapshot = (\<lambda>n log. (Some (OtherException ''snapshot failed''), log @ [''create_snapshot '' @ n])),
      has_rollback_snapshot = True,
      env_rollback_snapshot = (\<lambda>n log. (Some (OtherException ''rollback failed''), log @ [''rollback_snapshot '' @ n]))\<rparr>"

text \<open>
  An environment whose snapshot call fails with a message that names a path in brackets.
\<close>

definition bracket_env :: "string list environment" where
  "bracket_env =
     \<lparr>has_create_snapshot = True, cwd = ''/work'',
      env_create_snapshot = (\<lambda>n log. (Some (OtherException ''cannot snapshot [/work]: busy''), log @ [''create_snapshot '' @ n])),
      has_rollback_snapshot = True,
      env_rollback_snapshot = (\<lambda>n log. (None, log @ [''rollback_snapshot '' @ n]))\<rparr>"

text \<open>An environment whose first snapshot call fails and whose later calls return.\<close>

definition flaky_env :: "string list environment" where
  "flaky_env =
     \<lparr>has_create_snapshot = True, cwd = ''/work'',
      env_create_snapshot = (\<lambda>n log.
         if log = [] then (Some (OtherException ''busy''), [''create_snapshot '' @ n])
         else (None, log @ [''create_snapshot '' @ n])),
      has_rollback_snapshot = True,
      env_rollback_snapshot = (\<lambda>n log. (None, log @ [''rollback_snapshot '' @ n]))\<rparr>"

text \<open>An environment without the rollback method.\<close>

definition snapshot_only_env :: "string list environment" where
  "snapshot_only_env = logging_env\<lparr>has_rollback_snapshot := False\<rparr>"

definition msg :: message where
  "msg = \<lparr>role = ''user'', content = ''hello''\<rparr>"

text \<open>
  The session of the specification's scenario: three snapshots at steps 0, 1, 2, taken at
  transcript lengths 2, 5 and 9.
\<close>

definition three_snapshots :: "string list agent" where
  "three_snapshots =
     \<lparr>mode = Confirm, whitelist_actions = [''ls''], messages = replicate 9 msg,
      snapshots = [\<lparr>name = ''step-0'', message_count = 2, SnapshotInfo.step_number = 0\<rparr>,
                   \<lparr>name = ''step-1'', message_count = 5, SnapshotInfo.step_number = 1\<rparr>,
                   \<lparr>name = ''step-2'', message_count = 9, SnapshotInfo.step_number = 2\<rparr>],
      step_number = 3, env_state = [], console = []\<rparr>"

text \<open>A base executor that is interrupted by the user while the command runs.\<close>

definition interrupted_executor ::
  "string \<Rightarrow> string list agent \<Rightarrow> string list \<Rightarrow> (exn + unit) \<times> string list agent \<times> string list" where
  "interrupted_executor action st inp = (Inl KeyboardInterrupt, st\<lparr>env_state := env_state st @ [''execute '' @ action]\<rparr>, inp)"

text \<open>A base executor that runs the command.\<close>

definition logging_executor ::
  "string \<Rightarrow> string list agent \<Rightarrow> string list \<Rightarrow> (exn + unit) \<times> string list agent \<times> string list" where
  "logging_executor action st inp = (Inr (), st\<lparr>env_state := env_state st @ [''execute '' @ action]\<rparr>, inp)"

text \<open>
  A base step that hands the command \<open>sleep 100\<close> to the \<open>execute_action\<close> hook, where the
  user interrupts it; and a base step that is interrupted before it does anything.
\<close>

definition interrupted_step ::
  "string list agent \<Rightarrow> string list \<Rightarrow> (exn + unit) \<times> string list agent \<times> string list" where
  "interrupted_step st inp =
     execute_action literal_re_match plain_markup_error logging_env interrupted_executor ''sleep 100'' st inp"

definition interrupted_at_once ::
  "string list agent \<Rightarrow> string list \<Rightarrow> (exn + unit) \<times> string list agent \<times> string list" where
  "interrupted_at_once st inp = (Inl KeyboardInterrupt, st, inp)"

text \<open>The session of the scenario after the rollback to step 1, before the next prompt.\<close>

definition after_rollback_to_1 :: "string list agent" where
  "after_rollback_to_1 =
     \<lparr>mode = Confirm, whitelist_actions = [''ls''], messages = replicate 5 msg,
      snapshots = [\<lparr>name = ''step-0'', message_count = 2, SnapshotInfo.step_number = 0\<rparr>,
                   \<lparr>name = ''step-1'', message_count = 5, SnapshotInfo.step_number = 1\<rparr>],
      step_number = 2, env_state = [''rollback_snapshot step-1''],
      console = [Text ''[bold green]Rolled back to step 1[/bold green]'']\<rparr>"

text \<open>A fresh session in confirm mode with the whitelist \<open>ls\<close>.\<close>

definition confirm_session :: "string list agent" where
  "confirm_session = init_agent Confirm [''ls''] []"

text \<open>
  A session in the environment whose first snapshot call fails: a failed attempt, a
  successful one, two messages, another snapshot, a rollback to step 0 typed at a prompt,
  and one more snapshot.
\<close>

definition flaky_session :: "string list event list" where
  "flaky_session =
     [SnapshotAttempt, SnapshotAttempt, TranscriptBecomes [msg, msg], SnapshotAttempt,
      Prompted reprompt [''/r 0'', ''go''], SnapshotAttempt]"

definition yolo_session :: "string list agent" where
  "yolo_session = init_agent Yolo [] []"

text \<open>Three snapshot calls, at transcript lengths 2, 5 and 9.\<close>

definition three_calls :: "(message list \<times> string list) list" where
  "three_calls = [(replicate 2 msg, []), (replicate 5 msg, [''ls'']), (replicate 9 msg, [''ls'', ''make''])]"

section \<open>Verified properties\<close>

lemma handle_rollback_request:
  assumes "py_split user_input = p0 # arg # others"
  shows "handle_rollback E user_input st rest =
     (case py_int arg of
                None \<Rightarrow> prompt_and_handle_special E reprompt (console_print invalid_rollback_text st) rest
              | Some target_step \<Rightarrow>
                  (case find (\<lambda>s. SnapshotInfo.step_number s = target_step) (snapshots st) of
                     None \<Rightarrow>
                       prompt_and_handle_special E reprompt
                         (console_print (''[red]Snapshot for step '' @ str_int target_step @ '' not found[/red]'') st)
                         rest
                   | Some snapshot_info \<Rightarrow>
                       if has_rollback_snapshot E then
                         (case env_rollback_snapshot E (name snapshot_info) (env_state st) of
                            (None, e') \<Rightarrow>
                              prompt_and_handle_special E reprompt
                                (console_print (''[bold green]Rolled back to step '' @ str_int target_step @ ''[/bold green]'')
                                   (st\<lparr>env_state := e',
                                       messages := py_slice_to (messages st) (message_count snapshot_info),
                                       snapshots := filter (\<lambda>s. SnapshotInfo.step_number s \<le> target_step) (snapshots st),
                                       step_number := target_step + 1\<rparr>))
                                rest
                          | (Some e, e') \<Rightarrow>
                              if is_ValueError_or_IndexError e then
                                prompt_and_handle_special E reprompt
                                  (console_print invalid_rollback_text (st\<lparr>env_state := e'\<rparr>)) rest
                              else (Inl e, st\<lparr>env_state := e'\<rparr>, rest))
                       else
                         prompt_and_handle_special E reprompt
                           (console_print ''[red]Environment does not support rollback[/red]'' st) rest))"
  using assms by (simp add: handle_rollback.simps Let_def)

lemma py_slice_to_length:
  "0 \<le> k \<Longrightarrow> k \<le> int (length xs) \<Longrightarrow> int (length (py_slice_to xs k)) = k"
  by (simp add: py_slice_to_def)

text \<open>
  Claim C1. When the ledger holds a record with step number \<open>N\<close> and the environment
  supports rollback, a successful request \<open>/r N\<close> cuts the transcript to the record's
  \<open>message_count\<close> (the slice \<open>messages[:message_count]\<close>, whose length is
  \<open>message_count\<close> whenever the transcript is at least that long), keeps exactly the
  records with step number at most \<open>N\<close>, sets the step counter to \<open>N + 1\<close>, and then
  prompts again; the next successful snapshot is \<open>step-(N+1)\<close>.
\<close>

theorem rollback_success:
  assumes "py_split user_input = p0 # arg # others"
    and "py_int arg = Some N"
    and "find (\<lambda>s. SnapshotInfo.step_number s = N) (snapshots st) = Some s"
    and "has_rollback_snapshot E"
    and "env_rollback_snapshot E (name s) (env_state st) = (None, e')"
    and "st' = console_print (''[bold green]Rolled back to step '' @ str_int N @ ''[/bold green]'')
                 (st\<lparr>env_state := e',
                     messages := py_slice_to (messages st) (message_count s),
                     snapshots := filter (\<lambda>r. SnapshotInfo.step_number r \<le> N) (snapshots st),
                     step_number := N + 1\<rparr>)"
  shows "handle_rollback E user_input st rest = prompt_and_handle_special E reprompt st' rest
       \<and> messages st' = py_slice_to (messages st) (message_count s)
       \<and> (0 \<le> message_count s \<and> message_count s \<le> int (length (messages st))
            \<longrightarrow> messages st' = take (nat (message_count s)) (messages st)
              \<and> int (length (messages st')) = message_count s)
       \<and> snapshots st' = filter (\<lambda>r. SnapshotInfo.step_number r \<le> N) (snapshots st)
       \<and> (\<forall>r \<in> set (snapshots st'). SnapshotInfo.step_number r \<le> N)
       \<and> (\<forall>r \<in> set (snapshots st). SnapshotInfo.step_number r \<le> N \<longrightarrow> r \<in> set (snapshots st'))
       \<and> step_number st' = N + 1
       \<and> (snapshot_succeeds E st' \<longrightarrow>
            snapshots (snd (create_snapshot markup_error E st')) =
              snapshots st' @ [\<lparr>name = ''step-'' @ str_int (N + 1),
                                message_count = int (length (messages st')),
                                SnapshotInfo.step_number = N + 1\<rparr>])"
proof -
  have run: "handle_rollback E user_input st rest = prompt_and_handle_special E reprompt st' rest"
    using assms by (simp add: handle_rollback_request)
  have fields: "messages st' = py_slice_to (messages st) (message_count s)"
    "snapshots st' = filter (\<lambda>r. SnapshotInfo.step_number r \<le> N) (snapshots st)"
    "step_number st' = N + 1"
    using assms(6) by (simp_all add: console_print_def)
  have len: "0 \<le> message_count s \<and> message_count s \<le> int (length (messages st))
            \<longrightarrow> messages st' = take (nat (message_count s)) (messages st)
              \<and> int (length (messages st')) = message_count s"
    by (auto simp: fields py_slice_to_def min_def)
  have nxt: "snapshot_succeeds E st' \<longrightarrow>
            snapshots (snd (create_snapshot markup_error E st')) =
              snapshots st' @ [\<lparr>name = ''step-'' @ str_int (N + 1),
                                message_count = int (length (messages st')),
                                SnapshotInfo.step_number = N + 1\<rparr>]"
    by (auto simp: snapshot_succeeds_def create_snapshot_def fields(3) Let_def split: prod.splits option.splits)
  have b1: "\<forall>r \<in> set (snapshots st'). SnapshotInfo.step_number r \<le> N"
    by (simp add: fields)
  have b2: "\<forall>r \<in> set (snapshots st). SnapshotInfo.step_number r \<le> N \<longrightarrow> r \<in> set (snapshots st')"
    by (simp add: fields)
  show ?thesis
    using run fields len nxt b1 b2 by blast
qed


lemma py_split_r_1: "py_split ''/r 1'' = [''/r'', ''1'']"
  by (simp add: py_isspace_def)

lemma py_int_1: "py_int ''1'' = Some 1"
  by code_simp

lemma str_int_small: "str_int 0 = ''0''" "str_int 1 = ''1''" "str_int 2 = ''2''" "str_int 3 = ''3''" "str_int 7 = ''7''"
  by (simp_all add: str_int_def str_nat.simps digit_char_def)

text \<open>
  The scenario of the specification: snapshots at steps 0, 1, 2 with transcript lengths
  2, 5, 9; \<open>/r 1\<close> leaves a transcript of length 5, the records of steps 0 and 1, and the
  counter 2.
\<close>

theorem rollback_success_witness:
  "handle_rollback logging_env ''/r 1'' three_snapshots [''ok''] =
     prompt_and_handle_special logging_env reprompt after_rollback_to_1 [''ok'']
   \<and> prompt_and_handle_special logging_env reprompt after_rollback_to_1 [''ok''] =
       (Inr ''ok'', console_print reprompt after_rollback_to_1, [])
   \<and> length (messages three_snapshots) = 9
   \<and> length (messages after_rollback_to_1) = 5
   \<and> map SnapshotInfo.step_number (snapshots after_rollback_to_1) = [0, 1]
   \<and> step_number after_rollback_to_1 = 2
   \<and> snapshots (snd (create_snapshot plain_markup_error logging_env after_rollback_to_1)) =
       snapshots after_rollback_to_1 @
       [\<lparr>name = ''step-2'', message_count = 5, SnapshotInfo.step_number = 2\<rparr>]"
proof -
  let ?s1 = "\<lparr>name = ''step-1'', message_count = 5, SnapshotInfo.step_number = 1\<rparr>"
  have fi: "find (\<lambda>s. SnapshotInfo.step_number s = 1) (snapshots three_snapshots) = Some ?s1"
    by (simp add: three_snapshots_def)
  have cap: "has_rollback_snapshot logging_env"
    by (simp add: logging_env_def)
  have call: "env_rollback_snapshot logging_env (name ?s1) (env_state three_snapshots)
                = (None, [''rollback_snapshot step-1''])"
    by (simp add: logging_env_def three_snapshots_def)
  have st': "after_rollback_to_1 =
      console_print (''[bold green]Rolled back to step '' @ str_int 1 @ ''[/bold green]'')
        (three_snapshots\<lparr>env_state := [''rollback_snapshot step-1''],
            messages := py_slice_to (messages three_snapshots) (message_count ?s1),
            snapshots := filter (\<lambda>r. SnapshotInfo.step_number r \<le> 1) (snapshots three_snapshots),
            step_number := 1 + 1\<rparr>)"
    by (simp add: after_rollback_to_1_def three_snapshots_def console_print_def py_slice_to_def
        str_int_small)
  have ok: "snapshot_succeeds logging_env after_rollback_to_1"
    by (simp add: snapshot_succeeds_def logging_env_def)
  have plain: "prompt_and_handle_special logging_env reprompt after_rollback_to_1 [''ok''] =
       (Inr ''ok'', console_print reprompt after_rollback_to_1, [])"
    by (simp add: startswith_def MODE_COMMANDS_MAPPING_def)
  have len: "length (messages three_snapshots) = 9" "length (messages after_rollback_to_1) = 5"
    by (simp_all add: three_snapshots_def after_rollback_to_1_def)
  have steps: "map SnapshotInfo.step_number (snapshots after_rollback_to_1) = [0, 1]"
    "step_number after_rollback_to_1 = 2"
    by (simp_all add: after_rollback_to_1_def)
  have nm: "''step-'' @ str_int (1 + 1) = ''step-2''"
    by (simp add: str_int_small)
  note r = rollback_success [OF py_split_r_1 py_int_1 fi cap call st', of "[''ok'']"]
  from r have r1: "handle_rollback logging_env ''/r 1'' three_snapshots [''ok''] =
     prompt_and_handle_special logging_env reprompt after_rollback_to_1 [''ok'']"
    by (rule conjunct1)
  from r ok have r2: "snapshots (snd (create_snapshot plain_markup_error logging_env after_rollback_to_1)) =
       snapshots after_rollback_to_1 @
       [\<lparr>name = ''step-'' @ str_int (1 + 1), message_count = int (length (messages after_rollback_to_1)),
         SnapshotInfo.step_number = 1 + 1\<rparr>]"
    by blast
  have r3: "snapshots (snd (create_snapshot plain_markup_error logging_env after_rollback_to_1)) =
       snapshots after_rollback_to_1 @
       [\<lparr>name = ''step-2'', message_count = 5, SnapshotInfo.step_number = 2\<rparr>]"
    unfolding r2 nm len by simp
  show ?thesis
    using r1 plain len steps r3 by blast
qed

lemma find_None_iff_step:
  "(find (\<lambda>s. SnapshotInfo.step_number s = N) xs = None) = (\<forall>s \<in> set xs. SnapshotInfo.step_number s \<noteq> N)"
  by (auto simp: find_None_iff)

text \<open>
  Claim C2. When no record of the ledger has step number \<open>N\<close>, the request \<open>/r N\<close>
  reports that the snapshot was not found and prompts again, with the transcript, the
  ledger and the step counter as they were (and the environment untouched).
\<close>

theorem rollback_missing_target:
  assumes "py_split user_input = p0 # arg # others"
    and "py_int arg = Some N"
    and "\<forall>s \<in> set (snapshots st). SnapshotInfo.step_number s \<noteq> N"
    and "st' = console_print (''[red]Snapshot for step '' @ str_int N @ '' not found[/red]'') st"
  shows "handle_rollback E user_input st rest = prompt_and_handle_special E reprompt st' rest
       \<and> messages st' = messages st
       \<and> snapshots st' = snapshots st
       \<and> step_number st' = step_number st
       \<and> env_state st' = env_state st
       \<and> console st' = console st @ [Text (''[red]Snapshot for step '' @ str_int N @ '' not found[/red]'')]"
proof -
  have nf: "find (\<lambda>s. SnapshotInfo.step_number s = N) (snapshots st) = None"
    using assms(3) by (simp add: find_None_iff_step)
  have run: "handle_rollback E user_input st rest = prompt_and_handle_special E reprompt st' rest"
    using assms(1,2,4) nf by (simp add: handle_rollback_request)
  show ?thesis
    using run assms(4) by (simp add: console_print_def)
qed

lemma py_split_r_7: "py_split ''/r 7'' = [''/r'', ''7'']"
  by (simp add: py_isspace_def)

lemma py_int_7: "py_int ''7'' = Some 7"
  by code_simp

lemma prompt_plain_line:
  "user_input \<noteq> ''/h'' \<Longrightarrow> \<not> startswith user_input ''/r'' \<Longrightarrow> MODE_COMMANDS_MAPPING user_input = None \<Longrightarrow>
   prompt_and_handle_special E p st (user_input # rest) = (Inr user_input, console_print p st, rest)"
  by simp

lemma plain_ok: "''ok'' \<noteq> ''/h''" "\<not> startswith ''ok'' ''/r''" "MODE_COMMANDS_MAPPING ''ok'' = None"
  by (simp_all add: startswith_def MODE_COMMANDS_MAPPING_def)

text \<open>In the three-snapshot session there is no step 7.\<close>

theorem rollback_missing_target_witness:
  "handle_rollback logging_env ''/r 7'' three_snapshots [''ok''] =
     (Inr ''ok'',
      three_snapshots\<lparr>console := [Text ''[red]Snapshot for step 7 not found[/red]'', Text reprompt]\<rparr>,
      [])
   \<and> messages (three_snapshots\<lparr>console := [Text ''[red]Snapshot for step 7 not found[/red]'', Text reprompt]\<rparr>)
       = messages three_snapshots
   \<and> snapshots (three_snapshots\<lparr>console := [Text ''[red]Snapshot for step 7 not found[/red]'', Text reprompt]\<rparr>)
       = snapshots three_snapshots
   \<and> step_number (three_snapshots\<lparr>console := [Text ''[red]Snapshot for step 7 not found[/red]'', Text reprompt]\<rparr>)
       = step_number three_snapshots"
proof -
  have none: "\<forall>s \<in> set (snapshots three_snapshots). SnapshotInfo.step_number s \<noteq> 7"
    by (simp add: three_snapshots_def)
  note r = rollback_missing_target [OF py_split_r_7 py_int_7 none refl, of logging_env "[''ok'']"]
  from r have "handle_rollback logging_env ''/r 7'' three_snapshots [''ok''] =
      prompt_and_handle_special logging_env reprompt
        (console_print (''[red]Snapshot for step '' @ str_int 7 @ '' not found[/red]'') three_snapshots) [''ok'']"
    by (rule conjunct1)
  also have "\<dots> = (Inr ''ok'', console_print reprompt
        (console_print (''[red]Snapshot for step '' @ str_int 7 @ '' not found[/red]'') three_snapshots), [])"
    by (rule prompt_plain_line [OF plain_ok])
  also have "console_print reprompt
        (console_print (''[red]Snapshot for step '' @ str_int 7 @ '' not found[/red]'') three_snapshots)
     = three_snapshots\<lparr>console := [Text ''[red]Snapshot for step 7 not found[/red]'', Text reprompt]\<rparr>"
    by (simp add: console_print_def three_snapshots_def str_int_small)
  finally show ?thesis by simp
qed

lemma mode_commands:
  "MODE_COMMANDS_MAPPING ''/u'' = Some Human"
  "MODE_COMMANDS_MAPPING ''/c'' = Some Confirm"
  "MODE_COMMANDS_MAPPING ''/y'' = Some Yolo"
  by (simp_all add: MODE_COMMANDS_MAPPING_def)

lemma mode_token_cases:
  "tok \<in> {''/u'', ''/c'', ''/y''} \<Longrightarrow> \<exists>m. MODE_COMMANDS_MAPPING tok = Some m"
  by (auto simp: mode_commands)

lemma mode_token_not_special:
  "MODE_COMMANDS_MAPPING tok = Some m \<Longrightarrow> tok \<noteq> ''/h'' \<and> \<not> startswith tok ''/r''"
  by (auto simp: MODE_COMMANDS_MAPPING_def startswith_def split: if_splits)

text \<open>
  Claim C9. At a prompt, an input that is exactly \<open>/u\<close>, \<open>/c\<close> or \<open>/y\<close> names a mode.
  If it is the active mode, nothing but the console changes and the user is prompted again
  (with the notice that the mode is already active in front of the prompt text). Otherwise the
  mode is set, the switch is announced, and the token itself is returned.
\<close>

theorem mode_token_handling:
  assumes "tok \<in> {''/u'', ''/c'', ''/y''}"
  shows "\<exists>m. MODE_COMMANDS_MAPPING tok = Some m
       \<and> (mode st = m \<longrightarrow>
            prompt_and_handle_special E p st (tok # rest) =
              prompt_and_handle_special E
                (''[bold red]Already in '' @ mode_name (mode st) @ '' mode.[/bold red]'' @ newline @ p)
                (console_print p st) rest
            \<and> mode (console_print p st) = mode st
            \<and> messages (console_print p st) = messages st
            \<and> snapshots (console_print p st) = snapshots st
            \<and> step_number (console_print p st) = step_number st)
       \<and> (mode st \<noteq> m \<longrightarrow>
            prompt_and_handle_special E p st (tok # rest) =
              (Inr tok,
               (console_print p st)\<lparr>mode := m,
                  console := console st @ [Text p, Text (''Switched to [bold green]'' @ mode_name m @ ''[/bold green] mode.'')]\<rparr>,
               rest))"
proof -
  from assms obtain m where m: "MODE_COMMANDS_MAPPING tok = Some m"
    using mode_token_cases by blast
  then have ns: "tok \<noteq> ''/h''" "\<not> startswith tok ''/r''"
    using mode_token_not_special by blast+
  have same: "mode st = m \<longrightarrow>
            prompt_and_handle_special E p st (tok # rest) =
              prompt_and_handle_special E
                (''[bold red]Already in '' @ mode_name (mode st) @ '' mode.[/bold red]'' @ newline @ p)
                (console_print p st) rest"
    using m ns by (simp add: console_print_def)
  have other: "mode st \<noteq> m \<longrightarrow>
            prompt_and_handle_special E p st (tok # rest) =
              (Inr tok,
               (console_print p st)\<lparr>mode := m,
                  console := console st @ [Text p, Text (''Switched to [bold green]'' @ mode_name m @ ''[/bold green] mode.'')]\<rparr>,
               rest)"
    using m ns by (simp add: console_print_def)
  have frame: "mode (console_print p st) = mode st" "messages (console_print p st) = messages st"
    "snapshots (console_print p st) = snapshots st" "step_number (console_print p st) = step_number st"
    by (simp_all add: console_print_def)
  show ?thesis
    using m same other frame by blast
qed

text \<open>In confirm mode \<open>/y\<close> switches to yolo, and \<open>/c\<close> is refused.\<close>

theorem mode_token_handling_witness:
  "prompt_and_handle_special logging_env ''> '' three_snapshots [''/y''] =
     (Inr ''/y'',
      (console_print ''> '' three_snapshots)\<lparr>mode := Yolo,
         console := [Text ''> '', Text ''Switched to [bold green]yolo[/bold green] mode.'']\<rparr>,
      [])
   \<and> prompt_and_handle_special logging_env ''> '' three_snapshots [''/c'', ''/y''] =
       prompt_and_handle_special logging_env
         (''[bold red]Already in confirm mode.[/bold red]'' @ newline @ ''> '')
         (console_print ''> '' three_snapshots) [''/y'']
   \<and> mode (console_print ''> '' three_snapshots) = Confirm"
proof -
  have md: "mode three_snapshots = Confirm" "console three_snapshots = []"
    by (simp_all add: three_snapshots_def)
  obtain m where m: "MODE_COMMANDS_MAPPING ''/y'' = Some m"
    and sw: "mode three_snapshots \<noteq> m \<longrightarrow>
       prompt_and_handle_special logging_env ''> '' three_snapshots [''/y''] =
         (Inr ''/y'',
          (console_print ''> '' three_snapshots)\<lparr>mode := m,
             console := console three_snapshots @
               [Text ''> '', Text (''Switched to [bold green]'' @ mode_name m @ ''[/bold green] mode.'')]\<rparr>,
          [])"
    using mode_token_handling [of "''/y''" three_snapshots logging_env "''> ''" "[]"] by auto
  have my: "m = Yolo" using m by (simp add: mode_commands)
  have a: "prompt_and_handle_special logging_env ''> '' three_snapshots [''/y''] =
     (Inr ''/y'',
      (console_print ''> '' three_snapshots)\<lparr>mode := Yolo,
         console := [Text ''> '', Text ''Switched to [bold green]yolo[/bold green] mode.'']\<rparr>,
      [])"
    using sw by (simp add: my md mode_name_def)
  obtain m' where m': "MODE_COMMANDS_MAPPING ''/c'' = Some m'"
    and same: "mode three_snapshots = m' \<longrightarrow>
       prompt_and_handle_special logging_env ''> '' three_snapshots (''/c'' # [''/y'']) =
         prompt_and_handle_special logging_env
           (''[bold red]Already in '' @ mode_name (mode three_snapshots) @ '' mode.[/bold red]'' @ newline @ ''> '')
           (console_print ''> '' three_snapshots) [''/y'']
       \<and> mode (console_print ''> '' three_snapshots) = mode three_snapshots"
    using mode_token_handling [of "''/c''" three_snapshots logging_env "''> ''" "[''/y'']"] by auto
  have mc: "m' = Confirm" using m' by (simp add: mode_commands)
  have b: "prompt_and_handle_special logging_env ''> '' three_snapshots [''/c'', ''/y''] =
       prompt_and_handle_special logging_env
         (''[bold red]Already in confirm mode.[/bold red]'' @ newline @ ''> '')
         (console_print ''> '' three_snapshots) [''/y'']
     \<and> mode (console_print ''> '' three_snapshots) = Confirm"
    using same by (simp add: mc md mode_name_def)
  show ?thesis using a b by blast
qed

lemma any_match_valid:
  "\<forall>r \<in> set W. \<exists>b. re_match r C = Inr b \<Longrightarrow>
   any_match re_match W C = Inr (\<exists>r \<in> set W. re_match r C = Inr True)"
proof (induction W)
  case Nil
  then show ?case by simp
next
  case (Cons r W)
  then obtain b where b: "re_match r C = Inr b" by auto
  show ?case
  proof (cases b)
    case True
    then show ?thesis using b by simp
  next
    case False
    then show ?thesis using b Cons by simp
  qed
qed

text \<open>
  Claim C5. \<open>should_ask_confirmation\<close> answers no in yolo and in human mode whatever the
  whitelist is; in confirm mode, with a whitelist of patterns that \<open>re.match\<close> accepts, it
  answers no exactly when \<open>re.match\<close>, which matches at the start of the command, succeeds
  for some pattern of the whitelist.
\<close>

theorem should_ask_confirmation_policy:
  "(mode st \<noteq> Confirm \<longrightarrow> should_ask_confirmation re_match st C = Inr False)
   \<and> (mode st = Confirm \<and> (\<forall>r \<in> set (whitelist_actions st). \<exists>b. re_match r C = Inr b) \<longrightarrow>
        should_ask_confirmation re_match st C =
          Inr (\<not> (\<exists>r \<in> set (whitelist_actions st). re_match r C = Inr True)))"
  by (simp add: should_ask_confirmation_def any_match_valid)

text \<open>
  The scenario of the specification: whitelist \<open>ls\<close>; \<open>ls -la\<close> needs no confirmation,
  \<open>rm -rf /\<close> does, and neither does outside confirm mode.
\<close>

theorem should_ask_confirmation_policy_witness:
  "should_ask_confirmation literal_re_match three_snapshots ''ls -la'' = Inr False
   \<and> should_ask_confirmation literal_re_match three_snapshots ''rm -rf /'' = Inr True
   \<and> should_ask_confirmation literal_re_match (three_snapshots\<lparr>mode := Yolo\<rparr>) ''rm -rf /'' = Inr False
   \<and> should_ask_confirmation literal_re_match (three_snapshots\<lparr>mode := Human\<rparr>) ''rm -rf /'' = Inr False"
proof -
  have md: "mode three_snapshots = Confirm" "whitelist_actions three_snapshots = [''ls'']"
    by (simp_all add: three_snapshots_def)
  have valid: "\<forall>r \<in> set (whitelist_actions three_snapshots). \<exists>b. literal_re_match r C = Inr b" for C
    by (simp add: literal_re_match_def)
  have a: "should_ask_confirmation literal_re_match three_snapshots ''ls -la'' = Inr False"
    using should_ask_confirmation_policy [of three_snapshots literal_re_match "''ls -la''"] md valid
    by (auto simp: literal_re_match_def)
  have b: "should_ask_confirmation literal_re_match three_snapshots ''rm -rf /'' = Inr True"
    using should_ask_confirmation_policy [of three_snapshots literal_re_match "''rm -rf /''"] md valid
    by (auto simp: literal_re_match_def)
  have c: "should_ask_confirmation literal_re_match (three_snapshots\<lparr>mode := Yolo\<rparr>) ''rm -rf /'' = Inr False"
    using should_ask_confirmation_policy [of "three_snapshots\<lparr>mode := Yolo\<rparr>" literal_re_match "''rm -rf /''"]
    by simp
  have d: "should_ask_confirmation literal_re_match (three_snapshots\<lparr>mode := Human\<rparr>) ''rm -rf /'' = Inr False"
    using should_ask_confirmation_policy [of "three_snapshots\<lparr>mode := Human\<rparr>" literal_re_match "''rm -rf /''"]
    by simp
  show ?thesis using a b c d by blast
qed

lemma create_snapshot_failure:
  assumes "has_create_snapshot E" and "cwd E \<noteq> []"
    and "env_create_snapshot E (''step-'' @ str_int (step_number st)) (env_state st) = (Some e, e')"
    and "is_Exception e"
    and "markup_error (''[yellow]Warning: Failed to create snapshot: '' @ exn_str e @ ''[/yellow]'') = None"
  shows "create_snapshot markup_error E st =
           (None, console_print (''[yellow]Warning: Failed to create snapshot: '' @ exn_str e @ ''[/yellow]'')
                     (st\<lparr>env_state := e'\<rparr>))"
  using assms by (simp add: create_snapshot_def)

lemma create_snapshot_warning_raises:
  assumes "has_create_snapshot E" and "cwd E \<noteq> []"
    and "env_create_snapshot E (''step-'' @ str_int (step_number st)) (env_state st) = (Some e, e')"
    and "is_Exception e"
    and "markup_error (''[yellow]Warning: Failed to create snapshot: '' @ exn_str e @ ''[/yellow]'') = Some err"
  shows "create_snapshot markup_error E st = (Some err, st\<lparr>env_state := e'\<rparr>)"
  using assms by (simp add: create_snapshot_def)

lemma create_snapshot_success:
  assumes "has_create_snapshot E" and "cwd E \<noteq> []"
    and "env_create_snapshot E (''step-'' @ str_int (step_number st)) (env_state st) = (None, e')"
  shows "create_snapshot markup_error E st =
           (None, st\<lparr>env_state := e',
                     snapshots := snapshots st @
                       [\<lparr>name = ''step-'' @ str_int (step_number st),
                         message_count = int (length (messages st)),
                         SnapshotInfo.step_number = step_number st\<rparr>],
                     step_number := step_number st + 1\<rparr>)"
  using assms by (simp add: create_snapshot_def)

lemma execute_action_after_confirmation:
  assumes "should_ask_confirmation re_match st action = Inr ask"
    and "(if ask then ask_confirmation E st inp else (Inr (), st, inp)) = (Inr (), st1, rest)"
  shows "execute_action re_match markup_error E super_execute_action action st inp =
           (case create_snapshot markup_error E st1 of
              (Some e, st2) \<Rightarrow> (Inl e, st2, rest)
            | (None, st2) \<Rightarrow> super_execute_action action st2 rest)"
  using assms by (simp add: execute_action_def)

text \<open>
  A failed snapshot whose warning the console renders: counter, ledger and transcript stay
  as they were, the warning is printed, and the action is handed to the base executor.
\<close>

lemma failed_snapshot_with_rendered_warning:
  assumes "has_create_snapshot E" and "cwd E \<noteq> []"
    and "env_create_snapshot E (''step-'' @ str_int (step_number st1)) (env_state st1) = (Some e, e')"
    and "is_Exception e"
    and "markup_error (''[yellow]Warning: Failed to create snapshot: '' @ exn_str e @ ''[/yellow]'') = None"
    and "should_ask_confirmation re_match st action = Inr ask"
    and "(if ask then ask_confirmation E st inp else (Inr (), st, inp)) = (Inr (), st1, rest)"
    and "st2 = console_print (''[yellow]Warning: Failed to create snapshot: '' @ exn_str e @ ''[/yellow]'')
                 (st1\<lparr>env_state := e'\<rparr>)"
  shows "create_snapshot markup_error E st1 = (None, st2)
       \<and> step_number st2 = step_number st1
       \<and> snapshots st2 = snapshots st1
       \<and> messages st2 = messages st1
       \<and> console st2 = console st1 @ [Text (''[yellow]Warning: Failed to create snapshot: '' @ exn_str e @ ''[/yellow]'')]
       \<and> execute_action re_match markup_error E super_execute_action action st inp =
           super_execute_action action st2 rest"
proof -
  have cs: "create_snapshot markup_error E st1 = (None, st2)"
    using create_snapshot_failure [where markup_error = markup_error, OF assms(1-5)] assms(8) by simp
  have ex: "execute_action re_match markup_error E super_execute_action action st inp =
              super_execute_action action st2 rest"
    using execute_action_after_confirmation [where markup_error = markup_error, OF assms(6,7)] cs by simp
  show ?thesis
    using cs ex assms(8) by (simp add: console_print_def)
qed

text \<open>
  A failed snapshot whose warning the console refuses: the error of the console leaves
  \<open>_create_snapshot\<close> and \<open>execute_action\<close>, with counter, ledger, transcript and console as
  they were, and the base executor is not called.
\<close>

lemma failed_snapshot_with_refused_warning:
  assumes "has_create_snapshot E" and "cwd E \<noteq> []"
    and "env_create_snapshot E (''step-'' @ str_int (step_number st1)) (env_state st1) = (Some e, e')"
    and "is_Exception e"
    and "markup_error (''[yellow]Warning: Failed to create snapshot: '' @ exn_str e @ ''[/yellow]'') = Some err"
    and "should_ask_confirmation re_match st action = Inr ask"
    and "(if ask then ask_confirmation E st inp else (Inr (), st, inp)) = (Inr (), st1, rest)"
  shows "create_snapshot markup_error E st1 = (Some err, st1\<lparr>env_state := e'\<rparr>)
       \<and> execute_action re_match markup_error E super_execute_action action st inp =
           (Inl err, st1\<lparr>env_state := e'\<rparr>, rest)"
proof -
  have cs: "create_snapshot markup_error E st1 = (Some err, st1\<lparr>env_state := e'\<rparr>)"
    by (rule create_snapshot_warning_raises [where markup_error = markup_error, OF assms(1-5)])
  have ex: "execute_action re_match markup_error E super_execute_action action st inp =
              (Inl err, st1\<lparr>env_state := e'\<rparr>, rest)"
    using execute_action_after_confirmation [where markup_error = markup_error, OF assms(6,7)] cs by simp
  show ?thesis using cs ex by simp
qed

text \<open>
  Claim C3 describes what the code is written to do: the environment call sits in a
  \<open>try\<close> whose \<open>except Exception\<close> only prints a warning. The code misses it where the
  warning is printed: the message of the exception is put into the markup text, and a
  message with a closing tag that matches nothing makes \<open>console.print\<close> raise inside the
  handler. Here the environment fails with \<open>cannot snapshot [/work]: busy\<close> on the
  whitelisted command \<open>ls -la\<close>: \<open>_create_snapshot\<close> and \<open>execute_action\<close> raise
  \<open>MarkupError\<close>, no warning is printed, and the command is never run (the environment's log
  holds the snapshot call only). Step counter and ledger are unchanged.
\<close>

theorem snapshot_warning_markup_error:
  "create_snapshot plain_markup_error bracket_env three_snapshots =
     (Some (no_open_tag ''/work'' 60), three_snapshots\<lparr>env_state := [''create_snapshot step-3'']\<rparr>)
   \<and> execute_action literal_re_match plain_markup_error bracket_env logging_executor ''ls -la'' three_snapshots [] =
     (Inl (no_open_tag ''/work'' 60), three_snapshots\<lparr>env_state := [''create_snapshot step-3'']\<rparr>, [])"
proof -
  have cap: "has_create_snapshot bracket_env" "cwd bracket_env \<noteq> []"
    by (simp_all add: bracket_env_def)
  have call: "env_create_snapshot bracket_env (''step-'' @ str_int (step_number three_snapshots)) (env_state three_snapshots)
               = (Some (OtherException ''cannot snapshot [/work]: busy''), [''create_snapshot step-3''])"
    by (simp add: bracket_env_def three_snapshots_def str_int_small)
  have exc: "is_Exception (OtherException ''cannot snapshot [/work]: busy'')"
    by (simp add: is_Exception_def)
  have ren: "plain_markup_error (''[yellow]Warning: Failed to create snapshot: '' @
                exn_str (OtherException ''cannot snapshot [/work]: busy'') @ ''[/yellow]'')
              = Some (no_open_tag ''/work'' 60)"
    by code_simp
  have ask: "should_ask_confirmation literal_re_match three_snapshots ''ls -la'' = Inr False"
    by (simp add: should_ask_confirmation_def three_snapshots_def literal_re_match_def)
  have conf: "(if False then ask_confirmation bracket_env three_snapshots [] else (Inr (), three_snapshots, []))
               = (Inr (), three_snapshots, [])"
    by simp
  show ?thesis
    by (rule failed_snapshot_with_refused_warning [where markup_error = plain_markup_error, OF cap call exc ren ask conf])
qed

text \<open>
  With a message without brackets the same environment call only costs a warning, and the
  command runs.
\<close>

lemma snapshot_warning_rendered_example:
  "execute_action literal_re_match plain_markup_error failing_env logging_executor ''ls -la'' three_snapshots [] =
     (Inr (),
      three_snapshots\<lparr>env_state := [''create_snapshot step-3'', ''execute ls -la''],
                       console := [Text ''[yellow]Warning: Failed to create snapshot: snapshot failed[/yellow]'']\<rparr>,
      [])"
  by code_simp









lemma find_Some_in_set: "find P xs = Some x \<Longrightarrow> x \<in> set xs"
  by (induction xs) (auto split: if_splits)

lemma console_print_grows:
  "\<exists>out. out \<noteq> [] \<and> console (console_print s st) = console st @ out"
  by (simp add: console_print_def)

lemma print_snapshots_grows:
  "\<exists>out. out \<noteq> [] \<and> console (print_snapshots st) = console st @ out"
  by (simp add: print_snapshots_def console_print_def)

text \<open>The five ways in which the rollback handler can go.\<close>

lemma handle_rollback_cases:
  obtains
    (listing) "handle_rollback E user_input st rest =
                 prompt_and_handle_special E reprompt (print_snapshots st) rest"
  | (report) notice where "handle_rollback E user_input st rest =
                 prompt_and_handle_special E reprompt (console_print notice st) rest"
  | (caught) notice e' where "handle_rollback E user_input st rest =
                 prompt_and_handle_special E reprompt (console_print notice (st\<lparr>env_state := e'\<rparr>)) rest"
  | (rolled) notice N s e' where
      "find (\<lambda>r. SnapshotInfo.step_number r = N) (snapshots st) = Some s"
      "handle_rollback E user_input st rest =
         prompt_and_handle_special E reprompt
           (console_print notice
              (st\<lparr>env_state := e',
                  messages := py_slice_to (messages st) (message_count s),
                  snapshots := filter (\<lambda>r. SnapshotInfo.step_number r \<le> N) (snapshots st),
                  step_number := N + 1\<rparr>)) rest"
  | (raised) s e e' where
      "s \<in> set (snapshots st)" "has_rollback_snapshot E"
      "env_rollback_snapshot E (name s) (env_state st) = (Some e, e')"
      "\<not> is_ValueError_or_IndexError e"
      "handle_rollback E user_input st rest = (Inl e, st\<lparr>env_state := e'\<rparr>, rest)"
proof (cases "py_split user_input")
  case Nil
  then have "handle_rollback E user_input st rest =
      prompt_and_handle_special E reprompt (console_print invalid_rollback_text st) rest"
    by (simp add: handle_rollback.simps)
  then show ?thesis by (rule report)
next
  case (Cons p0 tl)
  show ?thesis
  proof (cases tl)
    case Nil
    then have "handle_rollback E user_input st rest =
        prompt_and_handle_special E reprompt (print_snapshots st) rest"
      using Cons by (simp add: handle_rollback.simps)
    then show ?thesis by (rule listing)
  next
    case (Cons arg others)
    then have sp: "py_split user_input = p0 # arg # others"
      using \<open>py_split user_input = p0 # tl\<close> by simp
    note hr = handle_rollback_request [OF sp, of E st rest]
    show ?thesis
    proof (cases "py_int arg")
      case None
      then have "handle_rollback E user_input st rest =
          prompt_and_handle_special E reprompt (console_print invalid_rollback_text st) rest"
        using hr by simp
      then show ?thesis by (rule report)
    next
      case (Some N)
      note pi = this
      show ?thesis
      proof (cases "find (\<lambda>s. SnapshotInfo.step_number s = N) (snapshots st)")
        case None
        then have "handle_rollback E user_input st rest =
            prompt_and_handle_special E reprompt
              (console_print (''[red]Snapshot for step '' @ str_int N @ '' not found[/red]'') st) rest"
          using hr pi by simp
        then show ?thesis by (rule report)
      next
        case (Some s)
        note fi = this
        then have mem: "s \<in> set (snapshots st)" by (rule find_Some_in_set)
        show ?thesis
        proof (cases "has_rollback_snapshot E")
          case False
          then have "handle_rollback E user_input st rest =
              prompt_and_handle_special E reprompt
                (console_print ''[red]Environment does not support rollback[/red]'' st) rest"
            using hr fi pi by simp
          then show ?thesis by (rule report)
        next
          case True
          note cap = this
          obtain r e' where call: "env_rollback_snapshot E (name s) (env_state st) = (r, e')"
            by (cases "env_rollback_snapshot E (name s) (env_state st)")
          show ?thesis
          proof (cases r)
            case None
            have "handle_rollback E user_input st rest =
                prompt_and_handle_special E reprompt
                  (console_print (''[bold green]Rolled back to step '' @ str_int N @ ''[/bold green]'')
                     (st\<lparr>env_state := e',
                         messages := py_slice_to (messages st) (message_count s),
                         snapshots := filter (\<lambda>r. SnapshotInfo.step_number r \<le> N) (snapshots st),
                         step_number := N + 1\<rparr>)) rest"
              using hr fi pi cap call None by simp
            with fi show ?thesis by (rule rolled)
          next
            case (Some e)
            show ?thesis
            proof (cases "is_ValueError_or_IndexError e")
              case True
              have "handle_rollback E user_input st rest =
                  prompt_and_handle_special E reprompt
                    (console_print invalid_rollback_text (st\<lparr>env_state := e'\<rparr>)) rest"
                using hr fi pi cap call Some True by simp
              then show ?thesis by (rule caught)
            next
              case False
              have run: "handle_rollback E user_input st rest = (Inl e, st\<lparr>env_state := e'\<rparr>, rest)"
                using hr fi pi cap call Some False by simp
              have c: "env_rollback_snapshot E (name s) (env_state st) = (Some e, e')"
                using call Some by simp
              from mem cap c False run show ?thesis by (rule raised)
            qed
          qed
        qed
      qed
    qed
  qed
qed

text \<open>Either the handler reports and prompts, or an exception of the environment escapes.\<close>

lemma handle_rollback_dichotomy:
  "(\<exists>st'. handle_rollback E user_input st rest = prompt_and_handle_special E reprompt st' rest
          \<and> (\<exists>out. out \<noteq> [] \<and> console st' = console st @ out))
   \<or> (\<exists>s e e'. s \<in> set (snapshots st) \<and> has_rollback_snapshot E
          \<and> env_rollback_snapshot E (name s) (env_state st) = (Some e, e')
          \<and> \<not> is_ValueError_or_IndexError e
          \<and> handle_rollback E user_input st rest = (Inl e, st\<lparr>env_state := e'\<rparr>, rest))"
  (is "?reported \<or> ?raised")
proof -
  have rep: ?reported
    if "handle_rollback E user_input st rest = prompt_and_handle_special E reprompt st' rest"
      and "\<exists>out. out \<noteq> [] \<and> console st' = console st @ out" for st'
  proof -
    from that have "handle_rollback E user_input st rest = prompt_and_handle_special E reprompt st' rest
          \<and> (\<exists>out. out \<noteq> [] \<and> console st' = console st @ out)"
      by (rule conjI)
    then show ?thesis by (rule exI)
  qed
  show ?thesis
  proof (cases rule: handle_rollback_cases [where E = E and user_input = user_input and st = st and rest = rest])
    case listing
    then have ?reported using print_snapshots_grows by (rule rep)
    then show ?thesis by (rule disjI1)
  next
    case (report notice)
    then have ?reported using console_print_grows by (rule rep)
    then show ?thesis by (rule disjI1)
  next
    case (caught notice e')
    have "\<exists>out. out \<noteq> [] \<and> console (console_print notice (st\<lparr>env_state := e'\<rparr>)) = console st @ out"
      by (simp add: console_print_def)
    with caught have ?reported by (rule rep)
    then show ?thesis by (rule disjI1)
  next
    case (rolled notice N s e')
    have "\<exists>out. out \<noteq> [] \<and> console (console_print notice
              (st\<lparr>env_state := e',
                  messages := py_slice_to (messages st) (message_count s),
                  snapshots := filter (\<lambda>r. SnapshotInfo.step_number r \<le> N) (snapshots st),
                  step_number := N + 1\<rparr>)) = console st @ out"
      by (simp add: console_print_def)
    with rolled(2) have ?reported by (rule rep)
    then show ?thesis by (rule disjI1)
  next
    case (raised s e e')
    then have "s \<in> set (snapshots st) \<and> has_rollback_snapshot E
        \<and> env_rollback_snapshot E (name s) (env_state st) = (Some e, e')
        \<and> \<not> is_ValueError_or_IndexError e
        \<and> handle_rollback E user_input st rest = (Inl e, st\<lparr>env_state := e'\<rparr>, rest)"
      by simp
    then have ?raised by (intro exI)
    then show ?thesis by (rule disjI2)
  qed
qed

lemma startswith_r_split:
  "startswith user_input ''/r'' \<Longrightarrow> py_split user_input \<noteq> []"
proof -
  assume "startswith user_input ''/r''"
  then obtain cs where "user_input = CHR ''/'' # CHR ''r'' # cs"
    by (auto simp: startswith_def prefix_def)
  then show ?thesis by (simp add: py_isspace_def)
qed

text \<open>
  Claim C8, as the code has it. An input that begins with \<open>/r\<close> has at least one part,
  and the rollback handler goes one of these ways, each fixed by the input, the ledger and
  the environment:
  \<^item> one part: the listing is printed, then a fresh prompt;
  \<^item> a second part that is not an integer: the invalid-command report, then a fresh prompt,
    and the environment is not called;
  \<^item> no record of that step: the not-found report, then a fresh prompt;
  \<^item> a record, but no rollback method: the unsupported report, then a fresh prompt;
  \<^item> the environment call returns: the rollback, the success notice, then a fresh prompt;
  \<^item> the environment call raises \<open>ValueError\<close> or \<open>IndexError\<close>: the invalid-command
    report, then a fresh prompt;
  \<^item> the environment call raises any other exception: it leaves the handler uncaught, with
    no report and no prompt.
  So in every case but the last the handler returns exactly what a fresh prompt returns, after
  a report; a value it returns always comes from a fresh prompt.
\<close>

theorem handle_rollback_reports_then_prompts:
  "(startswith user_input ''/r'' \<longrightarrow> py_split user_input \<noteq> [])
   \<and> (py_split user_input = [p0] \<longrightarrow>
        handle_rollback E user_input st rest =
          prompt_and_handle_special E reprompt (print_snapshots st) rest)
   \<and> (py_split user_input = p0 # arg # others \<longrightarrow>
        (py_int arg = None \<longrightarrow>
           handle_rollback E user_input st rest =
             prompt_and_handle_special E reprompt (console_print invalid_rollback_text st) rest)
      \<and> (py_int arg = Some N \<longrightarrow>
           (find (\<lambda>r. SnapshotInfo.step_number r = N) (snapshots st) = None \<longrightarrow>
              handle_rollback E user_input st rest =
                prompt_and_handle_special E reprompt
                  (console_print (''[red]Snapshot for step '' @ str_int N @ '' not found[/red]'') st) rest)
         \<and> (find (\<lambda>r. SnapshotInfo.step_number r = N) (snapshots st) = Some s \<longrightarrow>
              (\<not> has_rollback_snapshot E \<longrightarrow>
                 handle_rollback E user_input st rest =
                   prompt_and_handle_special E reprompt
                     (console_print ''[red]Environment does not support rollback[/red]'' st) rest)
            \<and> (has_rollback_snapshot E \<longrightarrow>
                 (env_rollback_snapshot E (name s) (env_state st) = (None, e') \<longrightarrow>
                    handle_rollback E user_input st rest =
                      prompt_and_handle_special E reprompt
                        (console_print (''[bold green]Rolled back to step '' @ str_int N @ ''[/bold green]'')
                           (st\<lparr>env_state := e',
                               messages := py_slice_to (messages st) (message_count s),
                               snapshots := filter (\<lambda>r. SnapshotInfo.step_number r \<le> N) (snapshots st),
                               step_number := N + 1\<rparr>)) rest)
               \<and> (env_rollback_snapshot E (name s) (env_state st) = (Some e, e') \<longrightarrow>
                    (is_ValueError_or_IndexError e \<longrightarrow>
                       handle_rollback E user_input st rest =
                         prompt_and_handle_special E reprompt
                           (console_print invalid_rollback_text (st\<lparr>env_state := e'\<rparr>)) rest)
                  \<and> (\<not> is_ValueError_or_IndexError e \<longrightarrow>
                       handle_rollback E user_input st rest = (Inl e, st\<lparr>env_state := e'\<rparr>, rest)))))))
   \<and> ((\<exists>st'. handle_rollback E user_input st rest = prompt_and_handle_special E reprompt st' rest
           \<and> (\<exists>out. out \<noteq> [] \<and> console st' = console st @ out))
      \<or> (\<exists>s e e'. s \<in> set (snapshots st) \<and> has_rollback_snapshot E
           \<and> env_rollback_snapshot E (name s) (env_state st) = (Some e, e')
           \<and> \<not> is_ValueError_or_IndexError e
           \<and> handle_rollback E user_input st rest = (Inl e, st\<lparr>env_state := e'\<rparr>, rest)))"
proof (intro conjI)
  show "startswith user_input ''/r'' \<longrightarrow> py_split user_input \<noteq> []"
    using startswith_r_split by blast
  show "py_split user_input = [p0] \<longrightarrow>
        handle_rollback E user_input st rest =
          prompt_and_handle_special E reprompt (print_snapshots st) rest"
    by (simp add: handle_rollback.simps)
  show "py_split user_input = p0 # arg # others \<longrightarrow>
        (py_int arg = None \<longrightarrow>
           handle_rollback E user_input st rest =
             prompt_and_handle_special E reprompt (console_print invalid_rollback_text st) rest)
      \<and> (py_int arg = Some N \<longrightarrow>
           (find (\<lambda>r. SnapshotInfo.step_number r = N) (snapshots st) = None \<longrightarrow>
              handle_rollback E user_input st rest =
                prompt_and_handle_special E reprompt
                  (console_print (''[red]Snapshot for step '' @ str_int N @ '' not found[/red]'') st) rest)
         \<and> (find (\<lambda>r. SnapshotInfo.step_number r = N) (snapshots st) = Some s \<longrightarrow>
              (\<not> has_rollback_snapshot E \<longrightarrow>
                 handle_rollback E user_input st rest =
                   prompt_and_handle_special E reprompt
                     (console_print ''[red]Environment does not support rollback[/red]'' st) rest)
            \<and> (has_rollback_snapshot E \<longrightarrow>
                 (env_rollback_snapshot E (name s) (env_state st) = (None, e') \<longrightarrow>
                    handle_rollback E user_input st rest =
                      prompt_and_handle_special E reprompt
                        (console_print (''[bold green]Rolled back to step '' @ str_int N @ ''[/bold green]'')
                           (st\<lparr>env_state := e',
                               messages := py_slice_to (messages st) (message_count s),
                               snapshots := filter (\<lambda>r. SnapshotInfo.step_number r \<le> N) (snapshots st),
                               step_number := N + 1\<rparr>)) rest)
               \<and> (env_rollback_snapshot E (name s) (env_state st) = (Some e, e') \<longrightarrow>
                    (is_ValueError_or_IndexError e \<longrightarrow>
                       handle_rollback E user_input st rest =
                         prompt_and_handle_special E reprompt
                           (console_print invalid_rollback_text (st\<lparr>env_state := e'\<rparr>)) rest)
                  \<and> (\<not> is_ValueError_or_IndexError e \<longrightarrow>
                       handle_rollback E user_input st rest = (Inl e, st\<lparr>env_state := e'\<rparr>, rest))))))"
  proof
    assume sp: "py_split user_input = p0 # arg # others"
    show "(py_int arg = None \<longrightarrow>
           handle_rollback E user_input st rest =
             prompt_and_handle_special E reprompt (console_print invalid_rollback_text st) rest)
      \<and> (py_int arg = Some N \<longrightarrow>
           (find (\<lambda>r. SnapshotInfo.step_number r = N) (snapshots st) = None \<longrightarrow>
              handle_rollback E user_input st rest =
                prompt_and_handle_special E reprompt
                  (console_print (''[red]Snapshot for step '' @ str_int N @ '' not found[/red]'') st) rest)
         \<and> (find (\<lambda>r. SnapshotInfo.step_number r = N) (snapshots st) = Some s \<longrightarrow>
              (\<not> has_rollback_snapshot E \<longrightarrow>
                 handle_rollback E user_input st rest =
                   prompt_and_handle_special E reprompt
                     (console_print ''[red]Environment does not support rollback[/red]'' st) rest)
            \<and> (has_rollback_snapshot E \<longrightarrow>
                 (env_rollback_snapshot E (name s) (env_state st) = (None, e') \<longrightarrow>
                    handle_rollback E user_input st rest =
                      prompt_and_handle_special E reprompt
                        (console_print (''[bold green]Rolled back to step '' @ str_int N @ ''[/bold green]'')
                           (st\<lparr>env_state := e',
                               messages := py_slice_to (messages st) (message_count s),
                               snapshots := filter (\<lambda>r. SnapshotInfo.step_number r \<le> N) (snapshots st),
                               step_number := N + 1\<rparr>)) rest)
               \<and> (env_rollback_snapshot E (name s) (env_state st) = (Some e, e') \<longrightarrow>
                    (is_ValueError_or_IndexError e \<longrightarrow>
                       handle_rollback E user_input st rest =
                         prompt_and_handle_special E reprompt
                           (console_print invalid_rollback_text (st\<lparr>env_state := e'\<rparr>)) rest)
                  \<and> (\<not> is_ValueError_or_IndexError e \<longrightarrow>
                       handle_rollback E user_input st rest = (Inl e, st\<lparr>env_state := e'\<rparr>, rest))))))"
      unfolding handle_rollback_request [OF sp] by simp
  qed
  show "(\<exists>st'. handle_rollback E user_input st rest = prompt_and_handle_special E reprompt st' rest
           \<and> (\<exists>out. out \<noteq> [] \<and> console st' = console st @ out))
      \<or> (\<exists>s e e'. s \<in> set (snapshots st) \<and> has_rollback_snapshot E
           \<and> env_rollback_snapshot E (name s) (env_state st) = (Some e, e')
           \<and> \<not> is_ValueError_or_IndexError e
           \<and> handle_rollback E user_input st rest = (Inl e, st\<lparr>env_state := e'\<rparr>, rest))"
    by (rule handle_rollback_dichotomy)
qed

text \<open>
  Claim C8 as stated fails: the environment's \<open>rollback_snapshot\<close> raises an exception that
  is neither a \<open>ValueError\<close> nor an \<open>IndexError\<close>. The handler raises it to its caller;
  nothing is printed and the next line of input is not read.
\<close>

theorem rollback_error_propagates:
  "handle_rollback failing_env ''/r 1'' three_snapshots [''ok''] =
     (Inl (OtherException ''rollback failed''),
      three_snapshots\<lparr>env_state := [''rollback_snapshot step-1'']\<rparr>,
      [''ok''])"
proof -
  have fi: "find (\<lambda>s. SnapshotInfo.step_number s = 1) (snapshots three_snapshots)
             = Some \<lparr>name = ''step-1'', message_count = 5, SnapshotInfo.step_number = 1\<rparr>"
    by (simp add: three_snapshots_def)
  have cap: "has_rollback_snapshot failing_env"
    by (simp add: failing_env_def)
  have call: "env_rollback_snapshot failing_env ''step-1'' (env_state three_snapshots)
                = (Some (OtherException ''rollback failed''), [''rollback_snapshot step-1''])"
    by (simp add: failing_env_def three_snapshots_def)
  have nc: "\<not> is_ValueError_or_IndexError (OtherException ''rollback failed'')"
    by (simp add: is_ValueError_or_IndexError_def)
  show ?thesis
    unfolding handle_rollback_request [OF py_split_r_1] py_int_1
    by (simp add: fi cap call nc)
qed

lemma py_split_r_abc: "py_split ''/r abc'' = [''/r'', ''abc'']"
  by (simp add: py_isspace_def)

lemma py_int_abc: "py_int ''abc'' = None"
  by code_simp

lemma py_split_r: "py_split ''/r'' = [''/r'']"
  by (simp add: py_isspace_def)

text \<open>
  In the environment whose rollback call raises: a malformed argument, the listing and a
  missing target are reported and followed by the prompt, and the environment is not called
  (its log stays empty). In the environment without the rollback method the request for an
  existing step is reported as unsupported.
\<close>

theorem handle_rollback_reports_then_prompts_witness:
  "handle_rollback failing_env ''/r abc'' three_snapshots [''ok''] =
     (Inr ''ok'', three_snapshots\<lparr>console := [Text invalid_rollback_text, Text reprompt]\<rparr>, [])
   \<and> handle_rollback failing_env ''/r'' three_snapshots [''ok''] =
     (Inr ''ok'', console_print reprompt (print_snapshots three_snapshots), [])
   \<and> handle_rollback failing_env ''/r 7'' three_snapshots [''ok''] =
     (Inr ''ok'',
      three_snapshots\<lparr>console := [Text ''[red]Snapshot for step 7 not found[/red]'', Text reprompt]\<rparr>, [])
   \<and> handle_rollback snapshot_only_env ''/r 1'' three_snapshots [''ok''] =
     (Inr ''ok'',
      three_snapshots\<lparr>console := [Text ''[red]Environment does not support rollback[/red]'', Text reprompt]\<rparr>, [])
   \<and> env_state three_snapshots = []"
proof -
  have c0: "console three_snapshots = []" "env_state three_snapshots = []"
    by (simp_all add: three_snapshots_def)
  have pl: "prompt_and_handle_special E reprompt st [''ok''] = (Inr ''ok'', console_print reprompt st, [])"
    for E :: "string list environment" and st
    by (rule prompt_plain_line [OF plain_ok])
  have a0: "handle_rollback failing_env ''/r abc'' three_snapshots [''ok''] =
      prompt_and_handle_special failing_env reprompt
        (console_print invalid_rollback_text three_snapshots) [''ok'']"
    by (rule handle_rollback_reports_then_prompts [where user_input = "''/r abc''" and ?p0.0 = "''/r''"
        and arg = "''abc''" and others = "[]" and E = failing_env and st = three_snapshots and rest = "[''ok'']",
        THEN conjunct2, THEN conjunct2, THEN conjunct1, THEN mp, OF py_split_r_abc,
        THEN conjunct1, THEN mp, OF py_int_abc])
  have a: "handle_rollback failing_env ''/r abc'' three_snapshots [''ok''] =
     (Inr ''ok'', three_snapshots\<lparr>console := [Text invalid_rollback_text, Text reprompt]\<rparr>, [])"
    unfolding a0 pl by (simp add: console_print_def c0)
  have b0: "handle_rollback failing_env ''/r'' three_snapshots [''ok''] =
      prompt_and_handle_special failing_env reprompt (print_snapshots three_snapshots) [''ok'']"
    by (rule handle_rollback_reports_then_prompts [where user_input = "''/r''" and ?p0.0 = "''/r''"
        and E = failing_env and st = three_snapshots and rest = "[''ok'']",
        THEN conjunct2, THEN conjunct1, THEN mp, OF py_split_r])
  have b: "handle_rollback failing_env ''/r'' three_snapshots [''ok''] =
     (Inr ''ok'', console_print reprompt (print_snapshots three_snapshots), [])"
    unfolding b0 pl by (rule refl)
  have none: "find (\<lambda>r. SnapshotInfo.step_number r = 7) (snapshots three_snapshots) = None"
    by (simp add: three_snapshots_def)
  have c1: "handle_rollback failing_env ''/r 7'' three_snapshots [''ok''] =
      prompt_and_handle_special failing_env reprompt
        (console_print (''[red]Snapshot for step '' @ str_int 7 @ '' not found[/red]'') three_snapshots) [''ok'']"
    by (rule handle_rollback_reports_then_prompts [where user_input = "''/r 7''" and ?p0.0 = "''/r''"
        and arg = "''7''" and others = "[]" and N = 7 and E = failing_env and st = three_snapshots
        and rest = "[''ok'']",
        THEN conjunct2, THEN conjunct2, THEN conjunct1, THEN mp, OF py_split_r_7,
        THEN conjunct2, THEN mp, OF py_int_7, THEN conjunct1, THEN mp, OF none])
  have c: "handle_rollback failing_env ''/r 7'' three_snapshots [''ok''] =
     (Inr ''ok'',
      three_snapshots\<lparr>console := [Text ''[red]Snapshot for step 7 not found[/red]'', Text reprompt]\<rparr>, [])"
    unfolding c1 pl by (simp add: console_print_def c0 str_int_small)
  have fi: "find (\<lambda>r. SnapshotInfo.step_number r = 1) (snapshots three_snapshots)
             = Some \<lparr>name = ''step-1'', message_count = 5, SnapshotInfo.step_number = 1\<rparr>"
    by (simp add: three_snapshots_def)
  have nocap: "\<not> has_rollback_snapshot snapshot_only_env"
    by (simp add: snapshot_only_env_def)
  have d0: "handle_rollback snapshot_only_env ''/r 1'' three_snapshots [''ok''] =
      prompt_and_handle_special snapshot_only_env reprompt
        (console_print ''[red]Environment does not support rollback[/red]'' three_snapshots) [''ok'']"
    by (rule handle_rollback_reports_then_prompts [where user_input = "''/r 1''" and ?p0.0 = "''/r''"
        and arg = "''1''" and others = "[]" and N = 1
        and s = "\<lparr>name = ''step-1'', message_count = 5, SnapshotInfo.step_number = 1\<rparr>"
        and E = snapshot_only_env and st = three_snapshots and rest = "[''ok'']",
        THEN conjunct2, THEN conjunct2, THEN conjunct1, THEN mp, OF py_split_r_1,
        THEN conjunct2, THEN mp, OF py_int_1, THEN conjunct2, THEN mp, OF fi,
        THEN conjunct1, THEN mp, OF nocap])
  have d: "handle_rollback snapshot_only_env ''/r 1'' three_snapshots [''ok''] =
     (Inr ''ok'',
      three_snapshots\<lparr>console := [Text ''[red]Environment does not support rollback[/red]'', Text reprompt]\<rparr>, [])"
    unfolding d0 pl by (simp add: console_print_def c0)
  show ?thesis using a b c d c0(2) by blast
qed

text \<open>The five ways in which a prompt can go once a line has been read.\<close>

lemma prompt_cases:
  obtains
    (helped) "user_input = ''/h''"
      "prompt_and_handle_special E p st (user_input # rest) =
         prompt_and_handle_special E p (console_print (help_text (mode st)) (console_print p st)) rest"
  | (rollback) "startswith user_input ''/r''"
      "prompt_and_handle_special E p st (user_input # rest) =
         handle_rollback E user_input (console_print p st) rest"
  | (same) "user_input \<noteq> ''/h''" "\<not> startswith user_input ''/r''"
      "MODE_COMMANDS_MAPPING user_input = Some (mode st)"
      "prompt_and_handle_special E p st (user_input # rest) =
         prompt_and_handle_special E
           (''[bold red]Already in '' @ mode_name (mode st) @ '' mode.[/bold red]'' @ newline @ p)
           (console_print p st) rest"
  | (switch) m where "user_input \<noteq> ''/h''" "\<not> startswith user_input ''/r''"
      "MODE_COMMANDS_MAPPING user_input = Some m" "mode st \<noteq> m"
      "prompt_and_handle_special E p st (user_input # rest) =
         (Inr user_input,
          console_print (''Switched to [bold green]'' @ mode_name m @ ''[/bold green] mode.'')
            ((console_print p st)\<lparr>mode := m\<rparr>),
          rest)"
  | (plain) "user_input \<noteq> ''/h''" "\<not> startswith user_input ''/r''"
      "MODE_COMMANDS_MAPPING user_input = None"
      "prompt_and_handle_special E p st (user_input # rest) = (Inr user_input, console_print p st, rest)"
proof (cases "user_input = ''/h''")
  case True
  then have "prompt_and_handle_special E p st (user_input # rest) =
         prompt_and_handle_special E p (console_print (help_text (mode st)) (console_print p st)) rest"
    by (simp add: console_print_def)
  with True show ?thesis by (rule helped)
next
  case False
  note nh = this
  show ?thesis
  proof (cases "startswith user_input ''/r''")
    case True
    then have "prompt_and_handle_special E p st (user_input # rest) =
         handle_rollback E user_input (console_print p st) rest"
      using nh by simp
    with True show ?thesis by (rule rollback)
  next
    case False
    note nr = this
    show ?thesis
    proof (cases "MODE_COMMANDS_MAPPING user_input")
      case None
      then have "prompt_and_handle_special E p st (user_input # rest) = (Inr user_input, console_print p st, rest)"
        using nh nr by simp
      with nh nr None show ?thesis by (rule plain)
    next
      case (Some m)
      show ?thesis
      proof (cases "mode st = m")
        case True
        have "prompt_and_handle_special E p st (user_input # rest) =
         prompt_and_handle_special E
           (''[bold red]Already in '' @ mode_name (mode st) @ '' mode.[/bold red]'' @ newline @ p)
           (console_print p st) rest"
          using nh nr Some True by (simp add: console_print_def)
        moreover have "MODE_COMMANDS_MAPPING user_input = Some (mode st)"
          using Some True by simp
        ultimately show ?thesis using nh nr same by blast
      next
        case False
        have "prompt_and_handle_special E p st (user_input # rest) =
         (Inr user_input,
          console_print (''Switched to [bold green]'' @ mode_name m @ ''[/bold green] mode.'')
            ((console_print p st)\<lparr>mode := m\<rparr>),
          rest)"
          using nh nr Some False by (simp add: console_print_def)
        with nh nr Some False show ?thesis by (rule switch)
      qed
    qed
  qed
qed

text \<open>
  A property of the agent that printing, a mode switch, a change of the environment and the
  assignments of a successful rollback preserve is preserved by every prompt.
\<close>

lemma prompt_preserves:
  assumes con: "\<And>st c. I st \<Longrightarrow> I (st\<lparr>console := c\<rparr>)"
    and md: "\<And>st m. I st \<Longrightarrow> I (st\<lparr>mode := m\<rparr>)"
    and en: "\<And>st e. I st \<Longrightarrow> I (st\<lparr>env_state := e\<rparr>)"
    and rb: "\<And>st N s e'. I st \<Longrightarrow> find (\<lambda>r. SnapshotInfo.step_number r = N) (snapshots st) = Some s \<Longrightarrow>
               I (st\<lparr>env_state := e',
                     messages := py_slice_to (messages st) (message_count s),
                     snapshots := filter (\<lambda>r. SnapshotInfo.step_number r \<le> N) (snapshots st),
                     step_number := N + 1\<rparr>)"
    and "I st"
  shows "I (fst (snd (prompt_and_handle_special E p st inp)))"
  using \<open>I st\<close>
proof (induction inp arbitrary: p st)
  case Nil
  then show ?case by (simp add: console_print_def con)
next
  case (Cons user_input rest)
  have pr: "I (console_print t s)" if "I s" for t s
    using that by (simp add: console_print_def con)
  have st1: "I (console_print p st)" using Cons.prems by (rule pr)
  show ?case
  proof (cases rule: prompt_cases [where E = E and p = p and st = st and user_input = user_input and rest = rest])
    case helped
    have "I (console_print (help_text (mode st)) (console_print p st))" using st1 by (rule pr)
    then show ?thesis unfolding helped(2) by (rule Cons.IH)
  next
    case rollback
    show ?thesis
    proof (cases rule: handle_rollback_cases [where E = E and user_input = user_input
             and st = "console_print p st" and rest = rest])
      case listing
      have "print_snapshots (console_print p st) =
              (console_print p st)\<lparr>console := console (print_snapshots (console_print p st))\<rparr>"
        by (simp add: print_snapshots_def console_print_def)
      then have "I (print_snapshots (console_print p st))"
        using con [OF st1, of "console (print_snapshots (console_print p st))"] by metis
      then show ?thesis unfolding rollback(2) listing by (rule Cons.IH)
    next
      case (report notice)
      have "I (console_print notice (console_print p st))" using st1 by (rule pr)
      then show ?thesis unfolding rollback(2) report by (rule Cons.IH)
    next
      case (caught notice e')
      have "I (console_print notice ((console_print p st)\<lparr>env_state := e'\<rparr>))"
        by (rule pr [OF en [OF st1]])
      then show ?thesis unfolding rollback(2) caught by (rule Cons.IH)
    next
      case (rolled notice N s e')
      have "I (console_print notice
              ((console_print p st)\<lparr>env_state := e',
                  messages := py_slice_to (messages (console_print p st)) (message_count s),
                  snapshots := filter (\<lambda>r. SnapshotInfo.step_number r \<le> N) (snapshots (console_print p st)),
                  step_number := N + 1\<rparr>))"
        by (rule pr [OF rb [OF st1 rolled(1)]])
      then show ?thesis unfolding rollback(2) rolled(2) by (rule Cons.IH)
    next
      case (raised s e e')
      have "I ((console_print p st)\<lparr>env_state := e'\<rparr>)" using st1 by (rule en)
      then show ?thesis unfolding rollback(2) raised(5) by simp
    qed
  next
    case same
    show ?thesis unfolding same(4) using st1 by (rule Cons.IH)
  next
    case (switch m)
    have "I (console_print (''Switched to [bold green]'' @ mode_name m @ ''[/bold green] mode.'')
            ((console_print p st)\<lparr>mode := m\<rparr>))"
      by (rule pr [OF md [OF st1]])
    then show ?thesis unfolding switch(5) by simp
  next
    case plain
    show ?thesis unfolding plain(4) using st1 by simp
  qed
qed

lemma filter_by_index:
  "\<forall>i < length xs. f (xs ! i) = int i \<Longrightarrow> filter (\<lambda>x. f x \<le> N) xs = take (nat (N + 1)) xs"
proof (induction xs rule: rev_induct)
  case Nil
  then show ?case by simp
next
  case (snoc x xs)
  have ih: "filter (\<lambda>x. f x \<le> N) xs = take (nat (N + 1)) xs"
  proof (rule snoc.IH)
    show "\<forall>i < length xs. f (xs ! i) = int i"
    proof (intro allI impI)
      fix i assume "i < length xs"
      then have "f ((xs @ [x]) ! i) = int i" using snoc.prems by simp
      then show "f (xs ! i) = int i" using \<open>i < length xs\<close> by (simp add: nth_append)
    qed
  qed
  have fx: "f x = int (length xs)"
    using snoc.prems by (auto dest: spec [of _ "length xs"])
  show ?case
  proof (cases "int (length xs) \<le> N")
    case True
    then show ?thesis using ih fx by simp
  next
    case False
    then have "nat (N + 1) \<le> length xs" by simp
    then show ?thesis using ih fx False by simp
  qed
qed

lemma find_Some_index:
  "find P xs = Some x \<Longrightarrow> \<exists>i < length xs. xs ! i = x \<and> P x"
  by (auto simp: find_Some_iff)

lemma ledger_consistent_console [simp]:
  "ledger_consistent (st\<lparr>console := c\<rparr>) = ledger_consistent st"
  by (simp add: ledger_consistent_def)

lemma ledger_consistent_mode [simp]:
  "ledger_consistent (st\<lparr>mode := m\<rparr>) = ledger_consistent st"
  by (simp add: ledger_consistent_def)

lemma ledger_consistent_env [simp]:
  "ledger_consistent (st\<lparr>env_state := e\<rparr>) = ledger_consistent st"
  by (simp add: ledger_consistent_def)

lemma ledger_consistent_messages [simp]:
  "ledger_consistent (st\<lparr>messages := ms\<rparr>) = ledger_consistent st"
  by (simp add: ledger_consistent_def)

lemma ledger_consistent_rollback:
  assumes "ledger_consistent st"
    and "find (\<lambda>r. SnapshotInfo.step_number r = N) (snapshots st) = Some s"
  shows "ledger_consistent
           (st\<lparr>env_state := e',
               messages := py_slice_to (messages st) (message_count s),
               snapshots := filter (\<lambda>r. SnapshotInfo.step_number r \<le> N) (snapshots st),
               step_number := N + 1\<rparr>)"
proof -
  have idx: "\<forall>i < length (snapshots st). SnapshotInfo.step_number (snapshots st ! i) = int i"
    using assms(1) by (simp add: ledger_consistent_def)
  obtain i where i: "i < length (snapshots st)" "snapshots st ! i = s" "SnapshotInfo.step_number s = N"
    using find_Some_index [OF assms(2)] by blast
  have N: "N = int i" using idx i by auto
  have flt: "filter (\<lambda>r. SnapshotInfo.step_number r \<le> int i) (snapshots st) = take (Suc i) (snapshots st)"
    using filter_by_index [OF idx, of "int i"] by (simp add: nat_add_distrib)
  show ?thesis
    using assms(1) i(1) unfolding ledger_consistent_def N
    by (simp add: flt min_def)
qed

lemma ledger_consistent_prompt:
  assumes "ledger_consistent st"
  shows "ledger_consistent (fst (snd (prompt_and_handle_special E p st inp)))"
proof (rule prompt_preserves [where I = ledger_consistent])
  show "ledger_consistent st" by (rule assms)
qed (simp_all add: ledger_consistent_rollback)

lemma ledger_consistent_create_snapshot:
  assumes "ledger_consistent st"
  shows "ledger_consistent (snd (create_snapshot markup_error E st))"
proof (cases "has_create_snapshot E \<and> cwd E \<noteq> []")
  case False
  then show ?thesis using assms by (auto simp: create_snapshot_def)
next
  case True
  obtain r e' where call: "env_create_snapshot E (''step-'' @ str_int (step_number st)) (env_state st) = (r, e')"
    by (cases "env_create_snapshot E (''step-'' @ str_int (step_number st)) (env_state st)")
  show ?thesis
  proof (cases r)
    case None
    then have "create_snapshot markup_error E st =
           (None, st\<lparr>env_state := e',
                     snapshots := snapshots st @
                       [\<lparr>name = ''step-'' @ str_int (step_number st),
                         message_count = int (length (messages st)),
                         SnapshotInfo.step_number = step_number st\<rparr>],
                     step_number := step_number st + 1\<rparr>)"
      using True call by (simp add: create_snapshot_success)
    then show ?thesis
      using assms by (auto simp: ledger_consistent_def nth_append less_Suc_eq)
  next
    case (Some e)
    then show ?thesis
      using True call assms
      by (simp add: create_snapshot_def console_print_def Let_def split: option.splits)
  qed
qed

lemma ledger_consistent_event:
  "ledger_consistent st \<Longrightarrow> ledger_consistent (apply_event markup_error E st ev)"
  by (cases ev) (simp_all add: ledger_consistent_create_snapshot ledger_consistent_prompt)

lemma ledger_consistent_run:
  "ledger_consistent st \<Longrightarrow> ledger_consistent (run_events markup_error E st evs)"
  unfolding run_events_def
  by (induction evs arbitrary: st) (simp_all add: ledger_consistent_event)

lemma ledger_consistent_init: "ledger_consistent (init_agent m wl e0)"
  by (simp add: ledger_consistent_def init_agent_def)

text \<open>
  Claim C10. From a fresh session, after any sequence of snapshot attempts (successful or
  failed), prompts (with any rollback requests typed at them) and changes of the transcript
  and the environment by the base agent, the step counter is the length of the ledger and
  every record sits at the index that is its step number, under the name of that step. In
  particular a failed attempt leaves counter and ledger alone, so the next successful
  snapshot takes the step number and the name the failed one would have had.
\<close>

theorem ledger_stays_consistent:
  "ledger_consistent (run_events markup_error E (init_agent m wl e0) evs)
   \<and> (has_create_snapshot E \<and> cwd E \<noteq> []
      \<and> env_create_snapshot E (''step-'' @ str_int (step_number st)) (env_state st) = (Some e, e')
      \<and> is_Exception e
      \<and> st1 = (snd (create_snapshot markup_error E st))\<lparr>messages := ms, env_state := e1\<rparr>
      \<and> snapshot_succeeds E st1
     \<longrightarrow> step_number (snd (create_snapshot markup_error E st)) = step_number st
       \<and> snapshots (snd (create_snapshot markup_error E st)) = snapshots st
       \<and> snapshots (snd (create_snapshot markup_error E st1)) =
           snapshots st @ [\<lparr>name = ''step-'' @ str_int (step_number st),
                             message_count = int (length ms),
                             SnapshotInfo.step_number = step_number st\<rparr>]
       \<and> step_number (snd (create_snapshot markup_error E st1)) = step_number st + 1)"
proof (intro conjI impI)
  show "ledger_consistent (run_events markup_error E (init_agent m wl e0) evs)"
    using ledger_consistent_init by (rule ledger_consistent_run)
next
  assume a: "has_create_snapshot E \<and> cwd E \<noteq> []
      \<and> env_create_snapshot E (''step-'' @ str_int (step_number st)) (env_state st) = (Some e, e')
      \<and> is_Exception e
      \<and> st1 = (snd (create_snapshot markup_error E st))\<lparr>messages := ms, env_state := e1\<rparr>
      \<and> snapshot_succeeds E st1"
  then have f: "step_number (snd (create_snapshot markup_error E st)) = step_number st"
    "snapshots (snd (create_snapshot markup_error E st)) = snapshots st"
    by (simp_all add: create_snapshot_def console_print_def Let_def split: option.splits)
  have s1: "step_number st1 = step_number st" "snapshots st1 = snapshots st" "messages st1 = ms"
    using a f by simp_all
  obtain e2 where "env_create_snapshot E (''step-'' @ str_int (step_number st1)) (env_state st1) = (None, e2)"
    using a by (cases "env_create_snapshot E (''step-'' @ str_int (step_number st1)) (env_state st1)")
      (auto simp: snapshot_succeeds_def)
  then have g: "create_snapshot markup_error E st1 =
           (None, st1\<lparr>env_state := e2,
                     snapshots := snapshots st1 @
                       [\<lparr>name = ''step-'' @ str_int (step_number st1),
                         message_count = int (length (messages st1)),
                         SnapshotInfo.step_number = step_number st1\<rparr>],
                     step_number := step_number st1 + 1\<rparr>)"
    using a by (simp add: create_snapshot_success)
  show "step_number (snd (create_snapshot markup_error E st)) = step_number st"
    by (rule f(1))
  show "snapshots (snd (create_snapshot markup_error E st)) = snapshots st"
    by (rule f(2))
  show "snapshots (snd (create_snapshot markup_error E st1)) =
           snapshots st @ [\<lparr>name = ''step-'' @ str_int (step_number st),
                             message_count = int (length ms),
                             SnapshotInfo.step_number = step_number st\<rparr>]"
    using g s1 by simp
  show "step_number (snd (create_snapshot markup_error E st1)) = step_number st + 1"
    using g s1 by simp
qed

text \<open>
  In the environment whose first snapshot call fails, the failed attempt leaves the ledger
  empty and the counter at 0, and the next attempt creates \<open>step-0\<close>; the whole session
  ends with the records of steps 0 and 1 and the counter 2.
\<close>

theorem ledger_stays_consistent_witness:
  "ledger_consistent (run_events plain_markup_error flaky_env yolo_session flaky_session)
   \<and> snapshots (run_events plain_markup_error flaky_env yolo_session flaky_session) =
       [\<lparr>name = ''step-0'', message_count = 0, SnapshotInfo.step_number = 0\<rparr>,
        \<lparr>name = ''step-1'', message_count = 0, SnapshotInfo.step_number = 1\<rparr>]
   \<and> step_number (run_events plain_markup_error flaky_env yolo_session flaky_session) = 2
   \<and> snapshots (snd (create_snapshot plain_markup_error flaky_env yolo_session)) = []
   \<and> step_number (snd (create_snapshot plain_markup_error flaky_env yolo_session)) = 0
   \<and> snapshots (snd (create_snapshot plain_markup_error flaky_env
         ((snd (create_snapshot plain_markup_error flaky_env yolo_session))\<lparr>messages := [msg], env_state := [''busy'']\<rparr>))) =
       [\<lparr>name = ''step-0'', message_count = 1, SnapshotInfo.step_number = 0\<rparr>]"
proof -
  have ev: "snapshots (run_events plain_markup_error flaky_env yolo_session flaky_session) =
       [\<lparr>name = ''step-0'', message_count = 0, SnapshotInfo.step_number = 0\<rparr>,
        \<lparr>name = ''step-1'', message_count = 0, SnapshotInfo.step_number = 1\<rparr>]"
    by code_simp
  have ct: "step_number (run_events plain_markup_error flaky_env yolo_session flaky_session) = 2"
    by code_simp
  have cap: "has_create_snapshot flaky_env \<and> cwd flaky_env \<noteq> []"
    by (simp add: flaky_env_def)
  have st0: "step_number yolo_session = 0" "snapshots yolo_session = []" "env_state yolo_session = []"
    by (simp_all add: yolo_session_def init_agent_def)
  have call: "env_create_snapshot flaky_env (''step-'' @ str_int (step_number yolo_session)) (env_state yolo_session)
                = (Some (OtherException ''busy''), [''create_snapshot step-0''])"
    by (simp add: flaky_env_def st0 str_int_small)
  have exc: "is_Exception (OtherException ''busy'')"
    by (simp add: is_Exception_def)
  have ok: "snapshot_succeeds flaky_env
              ((snd (create_snapshot plain_markup_error flaky_env yolo_session))\<lparr>messages := [msg], env_state := [''busy'']\<rparr>)"
    by (simp add: snapshot_succeeds_def flaky_env_def)
  note r = ledger_stays_consistent [where markup_error = plain_markup_error and E = flaky_env and m = Yolo and wl = "[]" and ?e0.0 = "[]"
      and evs = flaky_session and st = yolo_session
      and e = "OtherException ''busy''" and e' = "[''create_snapshot step-0'']"
      and ?st1.0 = "(snd (create_snapshot plain_markup_error flaky_env yolo_session))\<lparr>messages := [msg], env_state := [''busy'']\<rparr>"
      and ms = "[msg]" and ?e1.0 = "[''busy'']"]
  have inv: "ledger_consistent (run_events plain_markup_error flaky_env yolo_session flaky_session)"
    using r by (simp add: yolo_session_def)
  have rest: "step_number (snd (create_snapshot plain_markup_error flaky_env yolo_session)) = step_number yolo_session
       \<and> snapshots (snd (create_snapshot plain_markup_error flaky_env yolo_session)) = snapshots yolo_session
       \<and> snapshots (snd (create_snapshot plain_markup_error flaky_env
            ((snd (create_snapshot plain_markup_error flaky_env yolo_session))\<lparr>messages := [msg], env_state := [''busy'']\<rparr>))) =
           snapshots yolo_session @ [\<lparr>name = ''step-'' @ str_int (step_number yolo_session),
                             message_count = int (length [msg]),
                             SnapshotInfo.step_number = step_number yolo_session\<rparr>]"
    using r cap call exc ok by blast
  show ?thesis
    using inv ev ct rest by (simp add: st0 str_int_small)
qed

lemma enumerate_offset:
  "map (\<lambda>(i, ms, e). F (k + 1 + int i) ms) (enumerate n calls) =
   map (\<lambda>(i, ms, e). F (k + int i) ms) (enumerate (Suc n) calls)"
  by (induction calls arbitrary: n) (auto simp: add.commute add.left_commute)

lemma snapshot_calls_ledger:
  "all_succeed markup_error E st calls \<Longrightarrow>
   snapshots (snapshot_calls markup_error E st calls) =
     snapshots st @
     map (\<lambda>(i, ms, e). \<lparr>name = ''step-'' @ str_int (step_number st + int i),
                          message_count = int (length ms),
                          SnapshotInfo.step_number = step_number st + int i\<rparr>)
         (enumerate 0 calls)
   \<and> step_number (snapshot_calls markup_error E st calls) = step_number st + int (length calls)"
proof (induction calls arbitrary: st)
  case Nil
  then show ?case by simp
next
  case (Cons c calls)
  obtain ms e where c: "c = (ms, e)" by (cases c)
  let ?st0 = "st\<lparr>messages := ms, env_state := e\<rparr>"
  let ?st1 = "snd (create_snapshot markup_error E ?st0)"
  have ok: "snapshot_succeeds E ?st0" and more: "all_succeed markup_error E ?st1 calls"
    using Cons.prems c by simp_all
  obtain e' where call: "env_create_snapshot E (''step-'' @ str_int (step_number ?st0)) (env_state ?st0) = (None, e')"
    using ok by (cases "env_create_snapshot E (''step-'' @ str_int (step_number ?st0)) (env_state ?st0)")
      (auto simp: snapshot_succeeds_def)
  have cs: "create_snapshot markup_error E ?st0 =
           (None, ?st0\<lparr>env_state := e',
                     snapshots := snapshots ?st0 @
                       [\<lparr>name = ''step-'' @ str_int (step_number ?st0),
                         message_count = int (length (messages ?st0)),
                         SnapshotInfo.step_number = step_number ?st0\<rparr>],
                     step_number := step_number ?st0 + 1\<rparr>)"
    using ok call by (simp add: create_snapshot_success snapshot_succeeds_def)
  have s1: "snapshots ?st1 = snapshots st @
                       [\<lparr>name = ''step-'' @ str_int (step_number st),
                         message_count = int (length ms),
                         SnapshotInfo.step_number = step_number st\<rparr>]"
    "step_number ?st1 = step_number st + 1"
    unfolding cs by simp_all
  have run: "snapshot_calls markup_error E st (c # calls) = snapshot_calls markup_error E ?st1 calls"
    using c by simp
  note ih = Cons.IH [OF more, unfolded s1]
  have sh: "map (\<lambda>(i, ms, e). \<lparr>name = ''step-'' @ str_int (step_number st + 1 + int i),
                          message_count = int (length ms),
                          SnapshotInfo.step_number = step_number st + 1 + int i\<rparr>) (enumerate 0 calls)
     = map (\<lambda>(i, ms, e). \<lparr>name = ''step-'' @ str_int (step_number st + int i),
                          message_count = int (length ms),
                          SnapshotInfo.step_number = step_number st + int i\<rparr>) (enumerate (Suc 0) calls)"
    by (rule enumerate_offset [where F = "\<lambda>k ms. \<lparr>name = ''step-'' @ str_int k,
                          message_count = int (length ms), SnapshotInfo.step_number = k\<rparr>"])
  show ?case
    unfolding run using ih c sh
    by simp
qed

text \<open>
  Claim C4. After a sequence of successful \<open>_create_snapshot\<close> calls from a fresh session,
  whatever the transcript and the environment are at each call, the ledger has one record
  per call; the record of call \<open>i\<close> has step number \<open>i\<close>, its \<open>message_count\<close> is the
  length of the transcript at that call, and its name is \<open>step-i\<close>; so the step numbers
  increase strictly. Each successful call names its snapshot after the counter as it is
  before the call and then increments the counter.
\<close>

theorem snapshot_sequence_ledger:
  "(all_succeed markup_error E (init_agent m wl e0) calls \<longrightarrow>
      length (snapshots (snapshot_calls markup_error E (init_agent m wl e0) calls)) = length calls
      \<and> step_number (snapshot_calls markup_error E (init_agent m wl e0) calls) = int (length calls)
      \<and> (\<forall>i < length calls.
            snapshots (snapshot_calls markup_error E (init_agent m wl e0) calls) ! i =
              \<lparr>name = ''step-'' @ str_int (int i),
               message_count = int (length (fst (calls ! i))),
               SnapshotInfo.step_number = int i\<rparr>)
      \<and> (\<forall>i j. i < j \<and> j < length calls \<longrightarrow>
            SnapshotInfo.step_number (snapshots (snapshot_calls markup_error E (init_agent m wl e0) calls) ! i)
              < SnapshotInfo.step_number (snapshots (snapshot_calls markup_error E (init_agent m wl e0) calls) ! j)))
   \<and> (snapshot_succeeds E st \<longrightarrow>
        snapshots (snd (create_snapshot markup_error E st)) =
          snapshots st @ [\<lparr>name = ''step-'' @ str_int (step_number st),
                            message_count = int (length (messages st)),
                            SnapshotInfo.step_number = step_number st\<rparr>]
        \<and> step_number (snd (create_snapshot markup_error E st)) = step_number st + 1)"
proof (intro conjI impI)
  assume ok: "all_succeed markup_error E (init_agent m wl e0) calls"
  have i0: "snapshots (init_agent m wl e0 :: 'a agent) = []" "step_number (init_agent m wl e0 :: 'a agent) = 0"
    by (simp_all add: init_agent_def)
  note l = snapshot_calls_ledger [OF ok, unfolded i0, simplified]
  have sn: "snapshots (snapshot_calls markup_error E (init_agent m wl e0) calls) =
     map (\<lambda>(i, ms, e). \<lparr>name = ''step-'' @ str_int (int i), message_count = int (length ms),
                          SnapshotInfo.step_number = int i\<rparr>) (enumerate 0 calls)"
    using l by simp
  show "length (snapshots (snapshot_calls markup_error E (init_agent m wl e0) calls)) = length calls"
    unfolding sn by simp
  show "step_number (snapshot_calls markup_error E (init_agent m wl e0) calls) = int (length calls)"
    using l by simp
  have nth: "snapshots (snapshot_calls markup_error E (init_agent m wl e0) calls) ! i =
              \<lparr>name = ''step-'' @ str_int (int i),
               message_count = int (length (fst (calls ! i))),
               SnapshotInfo.step_number = int i\<rparr>" if "i < length calls" for i
    unfolding sn using that by (simp add: nth_enumerate_eq split_def)
  show "\<forall>i < length calls.
            snapshots (snapshot_calls markup_error E (init_agent m wl e0) calls) ! i =
              \<lparr>name = ''step-'' @ str_int (int i),
               message_count = int (length (fst (calls ! i))),
               SnapshotInfo.step_number = int i\<rparr>"
    using nth by blast
  show "\<forall>i j. i < j \<and> j < length calls \<longrightarrow>
            SnapshotInfo.step_number (snapshots (snapshot_calls markup_error E (init_agent m wl e0) calls) ! i)
              < SnapshotInfo.step_number (snapshots (snapshot_calls markup_error E (init_agent m wl e0) calls) ! j)"
  proof (intro allI impI)
    fix i j assume ij: "i < j \<and> j < length calls"
    then have "i < length calls" by simp
    then show "SnapshotInfo.step_number (snapshots (snapshot_calls markup_error E (init_agent m wl e0) calls) ! i)
              < SnapshotInfo.step_number (snapshots (snapshot_calls markup_error E (init_agent m wl e0) calls) ! j)"
      using ij by (simp add: nth)
  qed
next
  assume ok: "snapshot_succeeds E st"
  obtain e' where call: "env_create_snapshot E (''step-'' @ str_int (step_number st)) (env_state st) = (None, e')"
    using ok by (cases "env_create_snapshot E (''step-'' @ str_int (step_number st)) (env_state st)")
      (auto simp: snapshot_succeeds_def)
  have cs: "create_snapshot markup_error E st =
           (None, st\<lparr>env_state := e',
                     snapshots := snapshots st @
                       [\<lparr>name = ''step-'' @ str_int (step_number st),
                         message_count = int (length (messages st)),
                         SnapshotInfo.step_number = step_number st\<rparr>],
                     step_number := step_number st + 1\<rparr>)"
    using ok call by (simp add: create_snapshot_success snapshot_succeeds_def)
  show "snapshots (snd (create_snapshot markup_error E st)) =
          snapshots st @ [\<lparr>name = ''step-'' @ str_int (step_number st),
                            message_count = int (length (messages st)),
                            SnapshotInfo.step_number = step_number st\<rparr>]"
    unfolding cs by simp
  show "step_number (snd (create_snapshot markup_error E st)) = step_number st + 1"
    unfolding cs by simp
qed

text \<open>
  The scenario of the specification: three successful snapshots at transcript lengths 2, 5
  and 9 give the records of steps 0, 1 and 2.
\<close>

theorem snapshot_sequence_ledger_witness:
  "all_succeed plain_markup_error logging_env confirm_session three_calls
   \<and> snapshots (snapshot_calls plain_markup_error logging_env confirm_session three_calls) ! 0 =
       \<lparr>name = ''step-0'', message_count = 2, SnapshotInfo.step_number = 0\<rparr>
   \<and> snapshots (snapshot_calls plain_markup_error logging_env confirm_session three_calls) ! 1 =
       \<lparr>name = ''step-1'', message_count = 5, SnapshotInfo.step_number = 1\<rparr>
   \<and> snapshots (snapshot_calls plain_markup_error logging_env confirm_session three_calls) ! 2 =
       \<lparr>name = ''step-2'', message_count = 9, SnapshotInfo.step_number = 2\<rparr>
   \<and> length (snapshots (snapshot_calls plain_markup_error logging_env confirm_session three_calls)) = 3
   \<and> step_number (snapshot_calls plain_markup_error logging_env confirm_session three_calls) = 3"
proof -
  have ok: "all_succeed plain_markup_error logging_env confirm_session three_calls"
    by code_simp
  have len: "length three_calls = 3"
    by (simp add: three_calls_def)
  have fs: "length (fst (three_calls ! 0)) = 2" "length (fst (three_calls ! 1)) = 5"
    "length (fst (three_calls ! 2)) = 9"
    by (simp_all add: three_calls_def)
  note r = snapshot_sequence_ledger [where markup_error = plain_markup_error and E = logging_env and m = Confirm and wl = "[''ls'']"
      and ?e0.0 = "[]" and calls = three_calls, folded confirm_session_def, THEN conjunct1, rule_format, OF ok]
  have a: "length (snapshots (snapshot_calls plain_markup_error logging_env confirm_session three_calls)) = 3"
    using r len by simp
  have b: "step_number (snapshot_calls plain_markup_error logging_env confirm_session three_calls) = 3"
    using r len by simp
  have n: "\<forall>i < 3. snapshots (snapshot_calls plain_markup_error logging_env confirm_session three_calls) ! i =
              \<lparr>name = ''step-'' @ str_int (int i),
               message_count = int (length (fst (three_calls ! i))),
               SnapshotInfo.step_number = int i\<rparr>"
    using r len by simp
  have n0: "snapshots (snapshot_calls plain_markup_error logging_env confirm_session three_calls) ! 0 =
       \<lparr>name = ''step-0'', message_count = 2, SnapshotInfo.step_number = 0\<rparr>"
    using n [rule_format, of 0] fs by (simp add: str_int_small)
  have n1: "snapshots (snapshot_calls plain_markup_error logging_env confirm_session three_calls) ! 1 =
       \<lparr>name = ''step-1'', message_count = 5, SnapshotInfo.step_number = 1\<rparr>"
    using n [rule_format, of 1] fs by (simp add: str_int_small)
  have n2: "snapshots (snapshot_calls plain_markup_error logging_env confirm_session three_calls) ! 2 =
       \<lparr>name = ''step-2'', message_count = 9, SnapshotInfo.step_number = 2\<rparr>"
    using n [rule_format, of 2] fs by (simp add: str_int_small)
  show ?thesis using ok a b n0 n1 n2 by blast
qed

lemma dom_MODE_COMMANDS_MAPPING: "dom MODE_COMMANDS_MAPPING = {''/u'', ''/c'', ''/y''}"
  by (auto simp: MODE_COMMANDS_MAPPING_def split: if_splits)

lemma prompt_frame:
  "\<forall>l \<in> set inp. \<not> startswith l ''/r'' \<Longrightarrow>
   messages (fst (snd (prompt_and_handle_special E p st inp))) = messages st
   \<and> snapshots (fst (snd (prompt_and_handle_special E p st inp))) = snapshots st
   \<and> step_number (fst (snd (prompt_and_handle_special E p st inp))) = step_number st
   \<and> env_state (fst (snd (prompt_and_handle_special E p st inp))) = env_state st"
proof (induction inp arbitrary: p st)
  case Nil
  then show ?case by (simp add: console_print_def)
next
  case (Cons user_input rest)
  then have nr: "\<not> startswith user_input ''/r''" and more: "\<forall>l \<in> set rest. \<not> startswith l ''/r''"
    by simp_all
  show ?case
  proof (cases rule: prompt_cases [where E = E and p = p and st = st and user_input = user_input and rest = rest])
    case helped
    show ?thesis unfolding helped(2)
      using Cons.IH [OF more, of p "console_print (help_text (mode st)) (console_print p st)"]
      by (simp add: console_print_def)
  next
    case rollback
    then show ?thesis using nr by simp
  next
    case same
    show ?thesis unfolding same(4)
      using Cons.IH [OF more, of _ "console_print p st"]
      by (simp add: console_print_def)
  next
    case (switch m)
    show ?thesis unfolding switch(5) by (simp add: console_print_def)
  next
    case plain
    show ?thesis unfolding plain(4) by (simp add: console_print_def)
  qed
qed

text \<open>
  Claim C6, as the code has it. When the base step raises \<open>KeyboardInterrupt\<close>, \<open>step\<close>
  prompts the user and raises \<open>NonTerminatingException\<close> with the stripped answer, or with
  the default message when the answer is blank or a mode token. Nothing is restored: unless
  the user types a rollback request at that prompt, the transcript, the ledger and the step
  counter at the exception are those the interrupted step left behind.
\<close>

theorem interruption_becomes_nonterminating:
  "super_step (st\<lparr>console := console st @ [Rule]\<rparr>) inp = (Inl KeyboardInterrupt, st1, rest)
     \<and> prompt_and_handle_special E interrupted_prompt st1 rest = (Inr line, st2, rest2)
   \<longrightarrow> step E super_step st inp =
         (Inl (NonTerminatingException
                 (''Interrupted by user: '' @
                    (if py_strip line = [] \<or> py_strip line \<in> {''/u'', ''/c'', ''/y''}
                     then ''Temporary interruption caught.'' else py_strip line))),
          st2, rest2)
       \<and> ((\<forall>l \<in> set rest. \<not> startswith l ''/r'')
            \<longrightarrow> messages st2 = messages st1 \<and> snapshots st2 = snapshots st1
              \<and> step_number st2 = step_number st1)"
proof (intro impI conjI)
  assume a: "super_step (st\<lparr>console := console st @ [Rule]\<rparr>) inp = (Inl KeyboardInterrupt, st1, rest)
     \<and> prompt_and_handle_special E interrupted_prompt st1 rest = (Inr line, st2, rest2)"
  then show "step E super_step st inp =
         (Inl (NonTerminatingException
                 (''Interrupted by user: '' @
                    (if py_strip line = [] \<or> py_strip line \<in> {''/u'', ''/c'', ''/y''}
                     then ''Temporary interruption caught.'' else py_strip line))),
          st2, rest2)"
    by (simp add: step_def Let_def dom_MODE_COMMANDS_MAPPING)
  assume nr: "\<forall>l \<in> set rest. \<not> startswith l ''/r''"
  have st2: "st2 = fst (snd (prompt_and_handle_special E interrupted_prompt st1 rest))"
    using a by simp
  show "messages st2 = messages st1" "snapshots st2 = snapshots st1" "step_number st2 = step_number st1"
    unfolding st2 using prompt_frame [OF nr, of E interrupted_prompt st1] by simp_all
qed

text \<open>
  Claim C6 as stated fails. First session: the base step reaches \<open>execute_action\<close>, the
  snapshot \<open>step-0\<close> is taken, and the user interrupts the running command; at the
  exception the ledger holds the record and the counter is 1, where both were empty and 0
  before the step. Second session: the step is interrupted at once and the user types
  \<open>/r 0\<close> at the interruption prompt; the transcript goes from 9 messages to 2 and the
  ledger from 3 records to 1.
\<close>

theorem interruption_keeps_effects_of_step:
  "fst (step logging_env interrupted_step yolo_session [''stop'']) =
     Inl (NonTerminatingException ''Interrupted by user: stop'')
   \<and> snapshots yolo_session = []
   \<and> step_number yolo_session = 0
   \<and> snapshots (fst (snd (step logging_env interrupted_step yolo_session [''stop'']))) =
       [\<lparr>name = ''step-0'', message_count = 0, SnapshotInfo.step_number = 0\<rparr>]
   \<and> step_number (fst (snd (step logging_env interrupted_step yolo_session [''stop'']))) = 1
   \<and> fst (step logging_env interrupted_at_once three_snapshots [''/r 0'', ''stop'']) =
       Inl (NonTerminatingException ''Interrupted by user: stop'')
   \<and> length (messages three_snapshots) = 9
   \<and> length (snapshots three_snapshots) = 3
   \<and> length (messages (fst (snd (step logging_env interrupted_at_once three_snapshots [''/r 0'', ''stop''])))) = 2
   \<and> length (snapshots (fst (snd (step logging_env interrupted_at_once three_snapshots [''/r 0'', ''stop''])))) = 1"
  by (intro conjI; code_simp)

text \<open>
  A step interrupted at once, answered with \<open>/y\<close>: the mode is switched, the message is
  the default one, and transcript and ledger are as the base step left them.
\<close>

theorem interruption_becomes_nonterminating_witness:
  "step logging_env interrupted_at_once three_snapshots [''/y''] =
     (Inl (NonTerminatingException ''Interrupted by user: Temporary interruption caught.''),
      three_snapshots\<lparr>mode := Yolo,
                       console := [Rule, Text interrupted_prompt,
                                   Text ''Switched to [bold green]yolo[/bold green] mode.'']\<rparr>,
      [])
   \<and> messages (three_snapshots\<lparr>mode := Yolo,
                       console := [Rule, Text interrupted_prompt,
                                   Text ''Switched to [bold green]yolo[/bold green] mode.'']\<rparr>)
       = messages (three_snapshots\<lparr>console := [Rule]\<rparr>)
   \<and> snapshots (three_snapshots\<lparr>mode := Yolo,
                       console := [Rule, Text interrupted_prompt,
                                   Text ''Switched to [bold green]yolo[/bold green] mode.'']\<rparr>)
       = snapshots (three_snapshots\<lparr>console := [Rule]\<rparr>)"
proof -
  let ?st1 = "three_snapshots\<lparr>console := [Rule]\<rparr>"
  let ?st2 = "three_snapshots\<lparr>mode := Yolo,
                       console := [Rule, Text interrupted_prompt,
                                   Text ''Switched to [bold green]yolo[/bold green] mode.'']\<rparr>"
  have c0: "console three_snapshots = []" "mode three_snapshots = Confirm"
    by (simp_all add: three_snapshots_def)
  have s: "interrupted_at_once (three_snapshots\<lparr>console := console three_snapshots @ [Rule]\<rparr>) [''/y'']
            = (Inl KeyboardInterrupt, ?st1, [''/y''])"
    by (simp add: interrupted_at_once_def c0)
  have p: "prompt_and_handle_special logging_env interrupted_prompt ?st1 [''/y''] = (Inr ''/y'', ?st2, [])"
    by (simp add: startswith_def mode_commands c0 console_print_def mode_name_def)
  have strip: "py_strip ''/y'' = ''/y''"
    by (simp add: py_strip_def py_isspace_def)
  have nr: "\<forall>l \<in> set [''/y'']. \<not> startswith l ''/r''"
    by (simp add: startswith_def)
  note r = interruption_becomes_nonterminating [where super_step = interrupted_at_once
      and st = three_snapshots and inp = "[''/y'']" and ?st1.0 = ?st1 and rest = "[''/y'']"
      and E = logging_env and line = "''/y''" and ?st2.0 = ?st2 and ?rest2.0 = "[]"]
  show ?thesis
    using r s p nr by (simp add: strip)
qed

text \<open>
  In the source the prompt that follows a missing target (line 182) is inside the \<open>try\<close>
  block that catches \<open>ValueError\<close> and \<open>IndexError\<close>. The prompt raises neither, so the
  handler of that block never applies to it.
\<close>

lemma prompt_never_raises_caught:
  "prompt_and_handle_special E p st inp = (Inl e, st', rest') \<Longrightarrow> \<not> is_ValueError_or_IndexError e"
proof (induction inp arbitrary: p st)
  case Nil
  then show ?case by (auto simp: is_ValueError_or_IndexError_def)
next
  case (Cons user_input rest)
  show ?case
  proof (cases rule: prompt_cases [where E = E and p = p and st = st and user_input = user_input and rest = rest])
    case helped
    show ?thesis using Cons.prems unfolding helped(2) by (rule Cons.IH)
  next
    case rollback
    note rb = this
    show ?thesis
    proof (cases rule: handle_rollback_cases [where E = E and user_input = user_input
             and st = "console_print p st" and rest = rest])
      case listing
      show ?thesis using Cons.prems unfolding rb(2) listing by (rule Cons.IH)
    next
      case (report notice)
      show ?thesis using Cons.prems unfolding rb(2) report by (rule Cons.IH)
    next
      case (caught notice e')
      show ?thesis using Cons.prems unfolding rb(2) caught by (rule Cons.IH)
    next
      case (rolled notice N s e')
      show ?thesis using Cons.prems unfolding rb(2) rolled(2) by (rule Cons.IH)
    next
      case (raised s e0 e')
      then show ?thesis using Cons.prems unfolding rb(2) by simp
    qed
  next
    case same
    show ?thesis using Cons.prems unfolding same(4) by (rule Cons.IH)
  next
    case (switch m)
    show ?thesis using Cons.prems unfolding switch(5) by simp
  next
    case plain
    show ?thesis using Cons.prems unfolding plain(4) by simp
  qed
qed

end
